theory Spec2Isabelle
  imports Complex_Main "HOL-Library.Sublist" "HOL-Library.Char_ord" "HOL-Library.List_Lexorder"
    "HOL-Library.Log_Nat"
begin

section \<open>JavaScript values\<close>

text \<open>
  The service is JavaScript over schema-less documents (every mongoose schema of the data
  collections is \<open>{}\<close> with \<open>strict: false\<close>). Documents are modelled as records whose
  fields are all optional: \<open>None\<close> is a field that is absent (\<open>undefined\<close> when read).

  A number is a double: \<open>Fin q\<close> is the finite double whose exact value is the rational
  \<open>q\<close> (\<open>Fin 0\<close> is \<open>+0\<close>), \<open>NegZero\<close> is \<open>-0\<close>, and there are \<open>NaN\<close> and the two
  infinities. The numbers of the documents are doubles, so the \<open>q\<close> of a \<open>Fin q\<close> read from a
  document is representable; the result of \<open>/\<close> is rounded to a double as IEEE 754 does.

  A string is a list of characters, compared character by character as the default
  \<open>Array.prototype.sort\<close> compares code units; the white space of \<open>trim\<close> and of \<open>\s\<close> is the
  ECMAScript set restricted to code units below 256.
\<close>

datatype jsnum = Fin rat | NegZero | NaN | PosInf | NegInf

datatype jsval =
    JUndefined
  | JNull
  | JBool bool
  | JNum jsnum
  | JStr string
  | JArr "jsval list"
  | JObj "(string \<times> jsval) list"

type_synonym jsobject = "(string \<times> jsval) list"

text \<open>ToBoolean on a number: the two zeros and \<open>NaN\<close> are falsy.\<close>

fun truthy_num :: "jsnum \<Rightarrow> bool" where
  "truthy_num (Fin q) = (q \<noteq> 0)"
| "truthy_num NegZero = False"
| "truthy_num NaN = False"
| "truthy_num PosInf = True"
| "truthy_num NegInf = True"

text \<open>ToBoolean on an optional numeric field: an absent field reads \<open>undefined\<close>, falsy.\<close>

fun truthy_field :: "jsnum option \<Rightarrow> bool" where
  "truthy_field None = False"
| "truthy_field (Some n) = truthy_num n"

text \<open>ToBoolean on a value.\<close>

fun truthy :: "jsval \<Rightarrow> bool" where
  "truthy JUndefined = False"
| "truthy JNull = False"
| "truthy (JBool b) = b"
| "truthy (JNum n) = truthy_num n"
| "truthy (JStr s) = (s \<noteq> [])"
| "truthy (JArr _) = True"
| "truthy (JObj _) = True"

text \<open>An optional numeric field as the value a property read gives.\<close>

fun field_value :: "jsnum option \<Rightarrow> jsval" where
  "field_value None = JUndefined"
| "field_value (Some n) = JNum n"

text \<open>\<open>a || b\<close> on optional numeric fields.\<close>

definition or_field :: "jsnum option \<Rightarrow> jsnum option \<Rightarrow> jsnum option" where
  "or_field a b = (if truthy_field a then a else b)"

text \<open>\<open>a || b\<close> on values.\<close>

definition js_or :: "jsval \<Rightarrow> jsval \<Rightarrow> jsval" where
  "js_or a b = (if truthy a then a else b)"

text \<open>Property read on an object: \<open>undefined\<close> for a key the object does not have.\<close>

definition get_prop :: "jsobject \<Rightarrow> string \<Rightarrow> jsval" where
  "get_prop obj k = (case map_of obj k of None \<Rightarrow> JUndefined | Some v \<Rightarrow> v)"

definition has_key :: "jsobject \<Rightarrow> string \<Rightarrow> bool" where
  "has_key obj k = (k \<in> set (map fst obj))"

text \<open>
  \<open>{...obj, k: v}\<close>: the keys of \<open>obj\<close> in their order; \<open>k\<close> keeps its place when \<open>obj\<close> has it
  and comes last otherwise.
\<close>

fun spread_with :: "jsobject \<Rightarrow> string \<Rightarrow> jsval \<Rightarrow> jsobject" where
  "spread_with [] k v = [(k, v)]"
| "spread_with ((k', v') # rest) k v =
     (if k' = k then (k, v) # rest else (k', v') # spread_with rest k v)"

subsection \<open>Strings\<close>

text \<open>White space and line terminators among the code units below 256.\<close>

definition is_space :: "char \<Rightarrow> bool" where
  "is_space c = (of_char c \<in> {9, 10, 11, 12, 13, 32, 160 :: nat})"

definition trim :: "string \<Rightarrow> string" where
  "trim s = rev (dropWhile is_space (rev (dropWhile is_space s)))"

definition startsWith :: "string \<Rightarrow> string \<Rightarrow> bool" where
  "startsWith s p = (take (length p) s = p)"

section \<open>Regions and categories\<close>

text \<open>
  The single \<open>saascompnies\<close> document holds \<open>regions\<close>. A company is an object passed
  through as it is. A \<open>companies\<close> field is an array of companies, or some value \<open>v\<close> that
  is not an array (\<open>NotArray v\<close>): \<open>undefined\<close> when the field is missing. \<open>categories = None\<close>
  is a region whose \<open>categories\<close> is missing or not an array.
\<close>

datatype 'a array_field = IsArray "'a list" | NotArray jsval

text \<open>ToBoolean on such a field: an array is truthy.\<close>

fun truthy_array_field :: "'a array_field \<Rightarrow> bool" where
  "truthy_array_field (IsArray _) = True"
| "truthy_array_field (NotArray v) = truthy v"

record category =
  cat_name :: "string option"
  cat_companies :: "jsobject array_field"

record region =
  name :: "string option"
  exchangeName :: "string option"
  companies :: "jsobject array_field"
  categories :: "category list option"

datatype error = TypeError

subsection \<open>GET /api/countries\<close>

text \<open>
  \<open>regionName.match(/^([^(]+)/)\<close>: the longest prefix without \<open>(\<close>, which must not be
  empty; \<open>None\<close> is \<open>null\<close> (no match).
\<close>

definition match_country :: "string \<Rightarrow> string option" where
  "match_country s =
     (let m = takeWhile (\<lambda>c. c \<noteq> CHR ''('') s in if m = [] then None else Some m)"

text \<open>The callback of \<open>data.regions.map\<close>. \<open>!region.name\<close> holds for an absent and for an empty name.\<close>

definition countryName_of :: "region \<Rightarrow> string" where
  "countryName_of r =
     (case name r of
        None \<Rightarrow> ''Unknown''
      | Some regionName \<Rightarrow>
          if regionName = [] then ''Unknown''
          else (case match_country regionName of
                  Some m \<Rightarrow> trim m
                | None \<Rightarrow> trim regionName))"

text \<open>\<open>[...new Set(xs)]\<close>: the first occurrence of every element, in order of insertion.\<close>

definition set_add :: "'a list \<Rightarrow> 'a \<Rightarrow> 'a list" where
  "set_add acc x = (if x \<in> set acc then acc else acc @ [x])"

definition new_Set :: "'a list \<Rightarrow> 'a list" where
  "new_Set xs = foldl set_add [] xs"

text \<open>
  \<open>.sort()\<close> with the default comparator on strings (a stable sort by code units), as
  insertion from the right into a sorted list.
\<close>

fun insert_sorted :: "string \<Rightarrow> string list \<Rightarrow> string list" where
  "insert_sorted x [] = [x]"
| "insert_sorted x (y # ys) = (if x \<le> y then x # y # ys else y # insert_sorted x ys)"

fun sort_strings :: "string list \<Rightarrow> string list" where
  "sort_strings [] = []"
| "sort_strings (x # xs) = insert_sorted x (sort_strings xs)"

definition listCountries :: "region list \<Rightarrow> string list" where
  "listCountries regions =
     sort_strings (new_Set (filter (\<lambda>s. s \<noteq> []) (map countryName_of regions)))"

text \<open>
  The sentence of the specification, word for word: the trimmed substring before the first
  \<open>(\<close>, \<open>Unknown\<close> for a region without a name, empty results dropped, deduplicated, sorted.
\<close>

definition countryName_spec :: "region \<Rightarrow> string" where
  "countryName_spec r =
     (case name r of
        None \<Rightarrow> ''Unknown''
      | Some regionName \<Rightarrow> trim (takeWhile (\<lambda>c. c \<noteq> CHR ''('') regionName))"

definition listCountries_spec :: "region list \<Rightarrow> string list" where
  "listCountries_spec regions =
     sorted_list_of_set (set (map countryName_spec regions) - {[]})"

subsection \<open>GET /api/country/:countryName\<close>

text \<open>\<open>region && region.name && region.name.startsWith(countryName)\<close>\<close>

definition region_matches :: "string \<Rightarrow> region \<Rightarrow> bool" where
  "region_matches countryName r =
     (case name r of
        None \<Rightarrow> False
      | Some n \<Rightarrow> n \<noteq> [] \<and> startsWith n countryName)"

text \<open>\<open>Array.prototype.find\<close>: the first element the predicate accepts, \<open>None\<close> for \<open>undefined\<close>.\<close>

fun array_find :: "('a \<Rightarrow> bool) \<Rightarrow> 'a list \<Rightarrow> 'a option" where
  "array_find p [] = None"
| "array_find p (x # xs) = (if p x then Some x else array_find p xs)"

definition findRegion :: "region list \<Rightarrow> string \<Rightarrow> region option" where
  "findRegion regions countryName = array_find (region_matches countryName) regions"

subsection \<open>Selection of the companies in GET /api/companies/:countryName\<close>

text \<open>
  The callback of \<open>matchingRegion.categories.reduce\<close>: the companies of a category are
  appended when they are an array.
\<close>

definition add_category :: "jsobject list \<Rightarrow> category \<Rightarrow> jsobject list" where
  "add_category allCompanies c =
     (case cat_companies c of
        IsArray cs \<Rightarrow> allCompanies @ cs
      | NotArray _ \<Rightarrow> allCompanies)"

text \<open>
  The three branches that fill \<open>companies\<close>, which starts as \<open>[]\<close>. \<open>category\<close> is the
  query parameter, \<open>None\<close> when it is not given. Reading \<open>matchingRegion.categories.find\<close>
  or \<open>.reduce\<close> on a region without \<open>categories\<close> throws. The first and the last branch
  assign a \<open>companies\<close> field that is truthy, whether it is an array or not.
\<close>

definition selectCompanies ::
  "region \<Rightarrow> string \<Rightarrow> string option \<Rightarrow> error + jsobject array_field" where
  "selectCompanies matchingRegion countryName category =
     (if startsWith countryName ''United States''
         \<and> category \<noteq> None \<and> category \<noteq> Some [] \<and> category \<noteq> Some ''All''
      then (case categories matchingRegion of
              None \<Rightarrow> Inl TypeError
            | Some cats \<Rightarrow>
                (case array_find (\<lambda>cat. cat_name cat = category) cats of
                   Some matchingCategory \<Rightarrow>
                     if truthy_array_field (cat_companies matchingCategory)
                     then Inr (cat_companies matchingCategory)
                     else Inr (IsArray [])
                 | None \<Rightarrow> Inr (IsArray [])))
      else if startsWith countryName ''United States''
      then (case categories matchingRegion of
              None \<Rightarrow> Inl TypeError
            | Some cats \<Rightarrow> Inr (IsArray (foldl add_category [] cats)))
      else if truthy_array_field (companies matchingRegion)
      then Inr (companies matchingRegion)
      else Inr (IsArray []))"

section \<open>Numbers as strings\<close>

text \<open>The decimal digits of a natural number.\<close>

definition digit_char :: "nat \<Rightarrow> char" where
  "digit_char d = char_of (48 + d)"

function digits_of :: "nat \<Rightarrow> string" where
  "digits_of n = (if n < 10 then [digit_char n] else digits_of (n div 10) @ [digit_char (n mod 10)])"
  by pat_completeness auto
termination
  by (relation "measure id") auto

declare digits_of.simps [simp del]

text \<open>
  \<open>Number.prototype.toFixed(f)\<close> on a number \<open>0 \<le> x < 10\<^sup>2\<^sup>1\<close>: the integer \<open>n\<close> for which
  \<open>n / 10\<^sup>f - x\<close> is closest to zero, the larger one of two; its digits, padded with zeros
  to \<open>f + 1\<close> places, with the point before the last \<open>f\<close>.
\<close>

definition round_scaled :: "nat \<Rightarrow> rat \<Rightarrow> nat" where
  "round_scaled f x = nat \<lfloor>x * 10 ^ f + 1 / 2\<rfloor>"

definition fixed_digits :: "nat \<Rightarrow> rat \<Rightarrow> string" where
  "fixed_digits f x =
     (let m = digits_of (round_scaled f x) in
      if f = 0 then m
      else
        let m' = (if length m \<le> f then replicate (f + 1 - length m) CHR ''0'' @ m else m);
            k = length m'
        in take (k - f) m' @ ''.'' @ drop (k - f) m')"

text \<open>
  \<open>toFixed\<close> on any number. A number that is not finite gives its name; a negative one
  gives \<open>-\<close> and its absolute value. From \<open>10\<^sup>2\<^sup>1\<close> on the result is \<open>Number::toString\<close>, the
  shortest digits that identify the double in exponent notation: these depend on the
  binary representation, so that function is the parameter \<open>numberToString\<close>.
\<close>

fun toFixed :: "(rat \<Rightarrow> string) \<Rightarrow> nat \<Rightarrow> jsnum \<Rightarrow> string" where
  "toFixed numberToString f NaN = ''NaN''"
| "toFixed numberToString f NegZero = fixed_digits f 0"
| "toFixed numberToString f PosInf = ''Infinity''"
| "toFixed numberToString f NegInf = ''-Infinity''"
| "toFixed numberToString f (Fin x) =
     (if x < 0 then ''-'' else []) @
     (if \<bar>x\<bar> \<ge> 10 ^ 21 then numberToString \<bar>x\<bar> else fixed_digits f \<bar>x\<bar>)"

text \<open>ToNumber on an optional numeric field: \<open>undefined\<close> is \<open>NaN\<close>.\<close>

fun to_number :: "jsnum option \<Rightarrow> jsnum" where
  "to_number None = NaN"
| "to_number (Some n) = n"

subsection \<open>Division of doubles\<close>

text \<open>\<open>2\<^sup>e\<close> for an integer \<open>e\<close>.\<close>

definition pow2 :: "int \<Rightarrow> rat" where
  "pow2 e = (if e \<ge> 0 then 2 ^ nat e else 1 / 2 ^ nat (- e))"

text \<open>
  For \<open>q > 0\<close>, the \<open>e\<close> with \<open>2\<^sup>e \<le> q < 2\<^sup>e\<^sup>+\<^sup>1\<close>: the bit lengths of numerator and
  denominator give it up to one.
\<close>

definition floor_log2 :: "rat \<Rightarrow> int" where
  "floor_log2 q =
     (let e = bitlen (fst (quotient_of q)) - bitlen (snd (quotient_of q))
      in if pow2 e \<le> q then e else e - 1)"

text \<open>The nearest integer, the even one of two.\<close>

definition round_half_even :: "rat \<Rightarrow> int" where
  "round_half_even y =
     (let n = \<lfloor>y\<rfloor>; r = y - of_int n
      in if r < 1 / 2 then n
         else if 1 / 2 < r then n + 1
         else if even n then n else n + 1)"

text \<open>
  The unit in the last place of the doubles around \<open>q\<close>: 52 binary places below the
  leading bit, and \<open>2\<^sup>-\<^sup>1\<^sup>0\<^sup>7\<^sup>4\<close> in the subnormal range.
\<close>

definition ulp_exp :: "rat \<Rightarrow> int" where
  "ulp_exp q = max (floor_log2 \<bar>q\<bar>) (- 1022) - 52"

text \<open>
  Rounding of an exact result \<open>q \<noteq> 0\<close> to a double, to nearest with ties to even: the
  nearest multiple of the unit in the last place; infinity when that is \<open>2\<^sup>1\<^sup>0\<^sup>2\<^sup>4\<close> or
  more, a zero of the sign of \<open>q\<close> when it is zero.
\<close>

definition round_double :: "rat \<Rightarrow> jsnum" where
  "round_double q =
     (if q = 0 then Fin 0
      else
        let u = pow2 (ulp_exp q);
            x = of_int (round_half_even (q / u)) * u
        in if \<bar>x\<bar> \<ge> 2 ^ 1024 then (if q < 0 then NegInf else PosInf)
           else if x = 0 then (if q < 0 then NegZero else Fin 0)
           else Fin x)"

fun is_inf :: "jsnum \<Rightarrow> bool" where
  "is_inf PosInf = True"
| "is_inf NegInf = True"
| "is_inf _ = False"

fun is_zero :: "jsnum \<Rightarrow> bool" where
  "is_zero (Fin q) = (q = 0)"
| "is_zero NegZero = True"
| "is_zero _ = False"

fun negative :: "jsnum \<Rightarrow> bool" where
  "negative (Fin q) = (q < 0)"
| "negative NegZero = True"
| "negative NegInf = True"
| "negative _ = False"

fun value_of :: "jsnum \<Rightarrow> rat" where
  "value_of (Fin q) = q"
| "value_of _ = 0"

text \<open>
  The operator \<open>/\<close> on numbers, as IEEE 754 has it: \<open>NaN\<close> for a \<open>NaN\<close> operand, for two
  infinities and for two zeros; otherwise the sign is the exclusive or of the signs, with
  infinity for an infinite dividend or a zero divisor, zero for a zero dividend or an
  infinite divisor, and the rounded exact quotient for the rest.
\<close>

definition js_div :: "jsnum \<Rightarrow> jsnum \<Rightarrow> jsnum" where
  "js_div x y =
     (if x = NaN \<or> y = NaN then NaN
      else if is_inf x \<and> is_inf y then NaN
      else if is_zero x \<and> is_zero y then NaN
      else if is_inf x \<or> is_zero y
      then (if negative x \<noteq> negative y then NegInf else PosInf)
      else if is_zero x \<or> is_inf y
      then (if negative x \<noteq> negative y then NegZero else Fin 0)
      else round_double (value_of x / value_of y))"

section \<open>Financial documents\<close>

text \<open>
  \<open>date\<close> and \<open>mc_date\<close> hold the time value of \<open>new Date(entry.date)\<close>, in milliseconds;
  \<open>None\<close> is an Invalid Date, which an entry without \<open>date\<close> or with one that does not
  parse gives.
\<close>

record income_entry =
  date :: "int option"
  revenue :: "jsnum option"
  grossProfit :: "jsnum option"
  netIncome :: "jsnum option"
  calendarYear :: jsval

record market_cap_entry =
  mc_date :: "int option"
  marketCap :: "jsnum option"

record financial_data =
  fd_ticker :: "string option"
  income_statement :: "income_entry list option"
  market_cap :: "market_cap_entry list option"

record growth =
  revenue_growth_pct :: "jsnum option"
  gross_profit_growth_pct :: "jsnum option"
  net_income_growth_pct :: "jsnum option"

record raw =
  current_revenue :: "jsnum option"
  current_grossProfit :: "jsnum option"
  current_netIncome :: "jsnum option"

record multiples_raw =
  marketcap_to_revenue :: "jsnum option"
  marketcap_to_netincome :: "jsnum option"
  marketcap_to_grossprofit :: "jsnum option"

record valuation_metrics =
  vm_ticker :: "string option"
  vm_market_cap :: "jsnum option"
  latest_fiscal_year :: jsval
  growth_metrics :: "growth option"
  raw_values :: "raw option"
  valuation_multiples :: jsval
  valuation_multiples_raw :: "multiples_raw option"

text \<open>The object \<open>{}\<close> that stands for a document the lookup did not find.\<close>

definition empty_financial_data :: financial_data where
  "empty_financial_data = \<lparr>fd_ticker = None, income_statement = None, market_cap = None\<rparr>"

definition empty_valuation_metrics :: valuation_metrics where
  "empty_valuation_metrics =
     \<lparr>vm_ticker = None, vm_market_cap = None, latest_fiscal_year = JUndefined,
      growth_metrics = None, raw_values = None, valuation_multiples = JUndefined,
      valuation_multiples_raw = None\<rparr>"

subsection \<open>The latest entries\<close>

text \<open>
  \<open>new Date(b.date) - new Date(a.date)\<close>: the difference of the two time values, and
  \<open>NaN\<close> (here \<open>None\<close>) when one of the dates is invalid. The sort uses the sign of the
  difference only, which rounding to a double keeps.
\<close>

definition date_minus :: "int option \<Rightarrow> int option \<Rightarrow> int option" where
  "date_minus x y = (case (x, y) of (Some s, Some t) \<Rightarrow> Some (s - t) | _ \<Rightarrow> None)"

text \<open>The sort reads a comparator result \<open>NaN\<close> as \<open>+0\<close>.\<close>

definition sort_compare :: "('a \<Rightarrow> 'a \<Rightarrow> int option) \<Rightarrow> 'a \<Rightarrow> 'a \<Rightarrow> int" where
  "sort_compare comparefn x y = (case comparefn x y of None \<Rightarrow> 0 | Some v \<Rightarrow> v)"

text \<open>
  \<open>Array.prototype.sort\<close> with a comparator is stable; it is modelled as insertion from
  the right, where an element goes before the first one it does not compare greater than.
  Where the comparator orders the elements consistently this is the one result the
  language allows. Entries with invalid dates compare equal to every entry; when these
  are mixed with dated entries the comparator is not consistent, the language leaves the
  order to the implementation, and the insertion stands for one such implementation.
\<close>

fun insert_by :: "('a \<Rightarrow> 'a \<Rightarrow> int option) \<Rightarrow> 'a \<Rightarrow> 'a list \<Rightarrow> 'a list" where
  "insert_by cmp x [] = [x]"
| "insert_by cmp x (y # ys) =
     (if sort_compare cmp x y \<le> 0 then x # y # ys else y # insert_by cmp x ys)"

fun sort_by :: "('a \<Rightarrow> 'a \<Rightarrow> int option) \<Rightarrow> 'a list \<Rightarrow> 'a list" where
  "sort_by cmp [] = []"
| "sort_by cmp (x # xs) = insert_by cmp x (sort_by cmp xs)"

text \<open>\<open>xs[0]\<close>, with \<open>None\<close> for \<open>undefined\<close>.\<close>

fun first :: "'a list \<Rightarrow> 'a option" where
  "first [] = None"
| "first (x # _) = Some x"

definition latestIncomeStatement :: "financial_data \<Rightarrow> income_entry option" where
  "latestIncomeStatement financialData =
     (case income_statement financialData of
        None \<Rightarrow> None
      | Some entries \<Rightarrow>
          if length entries > 0
          then first (sort_by (\<lambda>a b. date_minus (date b) (date a)) entries)
          else None)"

definition latestMarketCap :: "financial_data \<Rightarrow> market_cap_entry option" where
  "latestMarketCap financialData =
     (case market_cap financialData of
        None \<Rightarrow> None
      | Some entries \<Rightarrow>
          if length entries > 0
          then first (sort_by (\<lambda>a b. date_minus (mc_date b) (mc_date a)) entries)
          else None)"

section \<open>Enrichment of a company\<close>

text \<open>Optional chaining \<open>x?.f\<close> on an optional object.\<close>

definition chain :: "'a option \<Rightarrow> ('a \<Rightarrow> 'b option) \<Rightarrow> 'b option" where
  "chain x f = (case x of None \<Rightarrow> None | Some v \<Rightarrow> f v)"

text \<open>\<open>x?.toFixed(d)\<close> on an optional number.\<close>

definition toFixed_chain :: "(rat \<Rightarrow> string) \<Rightarrow> nat \<Rightarrow> jsnum option \<Rightarrow> jsval" where
  "toFixed_chain numberToString d x =
     (case x of None \<Rightarrow> JUndefined | Some n \<Rightarrow> JStr (toFixed numberToString d n))"

text \<open>The \<open>raw_values\<close> object as a value: the keys it has.\<close>

definition raw_object :: "raw \<Rightarrow> jsval" where
  "raw_object r =
     JObj (List.map_filter (\<lambda>(k, v). map_option (\<lambda>n. (k, JNum n)) v)
       [(''current_revenue'', current_revenue r),
        (''current_grossProfit'', current_grossProfit r),
        (''current_netIncome'', current_netIncome r)])"

text \<open>The \<open>financials\<close> object built from the pre-calculated metrics.\<close>

definition precomputed_financials ::
  "(rat \<Rightarrow> string) \<Rightarrow> valuation_metrics \<Rightarrow> income_entry option \<Rightarrow> jsobject" where
  "precomputed_financials numberToString valuationMetrics latest =
     (let cur_revenue = chain (raw_values valuationMetrics) current_revenue;
          cur_grossProfit = chain (raw_values valuationMetrics) current_grossProfit;
          cur_netIncome = chain (raw_values valuationMetrics) current_netIncome
      in
       [(''marketCap'', field_value (vm_market_cap valuationMetrics)),
        (''revenue'', field_value (or_field cur_revenue (chain latest revenue))),
        (''grossProfit'', field_value (or_field cur_grossProfit (chain latest grossProfit))),
        (''netIncome'', field_value (or_field cur_netIncome (chain latest netIncome))),
        (''revenueGrowth'',
           toFixed_chain numberToString 1 (chain (growth_metrics valuationMetrics) revenue_growth_pct)),
        (''grossProfitGrowth'',
           toFixed_chain numberToString 1 (chain (growth_metrics valuationMetrics) gross_profit_growth_pct)),
        (''netIncomeGrowth'',
           toFixed_chain numberToString 1 (chain (growth_metrics valuationMetrics) net_income_growth_pct)),
        (''year'',
           js_or (latest_fiscal_year valuationMetrics)
             (case latest of None \<Rightarrow> JUndefined | Some e \<Rightarrow> calendarYear e)),
        (''marketCapToRevenueMultiple'',
           js_or (toFixed_chain numberToString 2
                    (chain (valuation_multiples_raw valuationMetrics) marketcap_to_revenue)) JNull),
        (''marketCapToNetIncomeMultiple'',
           js_or (toFixed_chain numberToString 2
                    (chain (valuation_multiples_raw valuationMetrics) marketcap_to_netincome)) JNull),
        (''marketCapToGrossProfitMultiple'',
           js_or (toFixed_chain numberToString 2
                    (chain (valuation_multiples_raw valuationMetrics) marketcap_to_grossprofit)) JNull),
        (''raw_values'',
           (case raw_values valuationMetrics of None \<Rightarrow> JUndefined | Some r \<Rightarrow> raw_object r)),
        (''current_revenue'', field_value cur_revenue),
        (''current_grossProfit'', field_value cur_grossProfit),
        (''current_netIncome'', field_value cur_netIncome)])"

text \<open>\<open>d ? (marketCap / d).toFixed(2) : null\<close>\<close>

definition multiple :: "(rat \<Rightarrow> string) \<Rightarrow> jsnum option \<Rightarrow> jsnum option \<Rightarrow> jsval" where
  "multiple numberToString mc d =
     (if truthy_field d
      then JStr (toFixed numberToString 2 (js_div (to_number mc) (to_number d)))
      else JNull)"

text \<open>The \<open>financials\<close> object calculated from the latest entries.\<close>

definition derived_financials ::
  "(rat \<Rightarrow> string) \<Rightarrow> income_entry \<Rightarrow> market_cap_entry \<Rightarrow> jsobject" where
  "derived_financials numberToString latest latestCap =
     [(''marketCap'', field_value (marketCap latestCap)),
      (''revenue'', field_value (revenue latest)),
      (''grossProfit'', field_value (grossProfit latest)),
      (''netIncome'', field_value (netIncome latest)),
      (''marketCapToRevenueMultiple'', multiple numberToString (marketCap latestCap) (revenue latest)),
      (''marketCapToNetIncomeMultiple'', multiple numberToString (marketCap latestCap) (netIncome latest)),
      (''marketCapToGrossProfitMultiple'',
         multiple numberToString (marketCap latestCap) (grossProfit latest)),
      (''year'', calendarYear latest)]"

text \<open>
  The callback of \<open>companies.map\<close>. The two arguments after the company are the results of
  the lookups by ticker; a lookup that finds nothing is replaced by \<open>{}\<close>, which is truthy,
  so only the two fields decide the first branch.
\<close>

definition enrich ::
  "(rat \<Rightarrow> string) \<Rightarrow> jsobject \<Rightarrow> financial_data option \<Rightarrow> valuation_metrics option \<Rightarrow> jsobject" where
  "enrich numberToString company fd vm =
     (let financialData = (case fd of Some d \<Rightarrow> d | None \<Rightarrow> empty_financial_data);
          valuationMetrics = (case vm of Some v \<Rightarrow> v | None \<Rightarrow> empty_valuation_metrics);
          latest = latestIncomeStatement financialData;
          latestCap = latestMarketCap financialData
      in
        if growth_metrics valuationMetrics \<noteq> None \<or> raw_values valuationMetrics \<noteq> None
        then spread_with company ''financials''
               (JObj (precomputed_financials numberToString valuationMetrics latest))
        else (case (latest, latestCap) of
                (Some e, Some m) \<Rightarrow>
                  spread_with company ''financials'' (JObj (derived_financials numberToString e m))
              | _ \<Rightarrow> company))"

text \<open>
  What a reader of the response finds under \<open>financials.k\<close> of an enriched company;
  \<open>undefined\<close> when it has no \<open>financials\<close> object.
\<close>

definition financials_field :: "jsobject \<Rightarrow> string \<Rightarrow> jsval" where
  "financials_field enriched k =
     (case get_prop enriched ''financials'' of JObj f \<Rightarrow> get_prop f k | _ \<Rightarrow> JUndefined)"

subsection \<open>The lookups by ticker\<close>

text \<open>
  \<open>find({ticker: {$in: tickers}})\<close> and the lookup objects filled by \<open>forEach\<close>, where a
  later document replaces an earlier one of the same ticker. A ticker is a string; a
  company whose \<open>ticker\<close> is anything else finds no document.
\<close>

definition find_in :: "('d \<Rightarrow> string option) \<Rightarrow> 'd list \<Rightarrow> jsval list \<Rightarrow> 'd list" where
  "find_in ticker_of coll tickers =
     filter (\<lambda>d. case ticker_of d of None \<Rightarrow> False | Some t \<Rightarrow> JStr t \<in> set tickers) coll"

definition put_doc :: "('d \<Rightarrow> string option) \<Rightarrow> (string \<rightharpoonup> 'd) \<Rightarrow> 'd \<Rightarrow> (string \<rightharpoonup> 'd)" where
  "put_doc ticker_of m d =
     (case ticker_of d of
        None \<Rightarrow> m
      | Some t \<Rightarrow> if t \<noteq> [] then m(t \<mapsto> d) else m)"

definition lookup_map :: "('d \<Rightarrow> string option) \<Rightarrow> 'd list \<Rightarrow> (string \<rightharpoonup> 'd)" where
  "lookup_map ticker_of docs = foldl (put_doc ticker_of) Map.empty docs"

definition by_ticker :: "(string \<rightharpoonup> 'd) \<Rightarrow> jsobject \<Rightarrow> 'd option" where
  "by_ticker m company =
     (case get_prop company ''ticker'' of JStr t \<Rightarrow> m t | _ \<Rightarrow> None)"

definition enrichCompanies ::
  "(rat \<Rightarrow> string) \<Rightarrow> financial_data list \<Rightarrow> valuation_metrics list \<Rightarrow> jsobject list \<Rightarrow> jsobject list" where
  "enrichCompanies numberToString fdColl vmColl selected =
     (let tickers = map (\<lambda>company. get_prop company ''ticker'') selected;
          financialDataMap = lookup_map fd_ticker (find_in fd_ticker fdColl tickers);
          valuationMetricsMap = lookup_map vm_ticker (find_in vm_ticker vmColl tickers)
      in map (\<lambda>company.
                enrich numberToString company
                  (by_ticker financialDataMap company) (by_ticker valuationMetricsMap company))
           selected)"

section \<open>The store and the handlers\<close>

text \<open>
  The collections the handlers read and write. \<open>connected\<close> says that
  \<open>connectToDatabase()\<close> returns; when it throws, the handler answers 500 from its
  \<open>catch\<close>. \<open>saascompnies\<close> is the result of \<open>SaasCompany.findOne({})\<close>.
\<close>

record saas_document =
  regions :: "region list option"

record subscription =
  email :: string
  phone :: "string option"

record database =
  connected :: bool
  saascompnies :: "saas_document option"
  incomeusa :: "financial_data list"
  valuation_metrics_coll :: "valuation_metrics list"
  notification_subscriptions :: "subscription list"
  metrics_update_subscriptions :: "subscription list"

text \<open>
  A response: \<open>res.status(n).json(body)\<close>, and \<open>res.status(n).json({message: m})\<close>.
\<close>

datatype 'a response = Json nat 'a | JsonMessage nat string

fun status_of :: "'a response \<Rightarrow> nat" where
  "status_of (Json n _) = n"
| "status_of (JsonMessage n _) = n"

definition countries_handler :: "database \<Rightarrow> string list response" where
  "countries_handler db =
     (if \<not> connected db then Json 500 []
      else (case saascompnies db of
              None \<Rightarrow> Json 404 []
            | Some data \<Rightarrow>
                (case regions data of
                   None \<Rightarrow> Json 404 []
                 | Some rs \<Rightarrow> Json 200 (listCountries rs))))"

definition country_handler :: "database \<Rightarrow> string \<Rightarrow> region response" where
  "country_handler db countryName =
     (if \<not> connected db then JsonMessage 500 ''Server error''
      else (case saascompnies db of
              None \<Rightarrow> JsonMessage 404 ''No data found''
            | Some data \<Rightarrow>
                (case regions data of
                   None \<Rightarrow> JsonMessage 404 ''No data found''
                 | Some rs \<Rightarrow>
                     (case findRegion rs countryName of
                        None \<Rightarrow> JsonMessage 404 ''Country not found''
                      | Some matchingRegion \<Rightarrow> Json 200 matchingRegion))))"

text \<open>
  The enrichment step of the handler, for a country name that starts with
  \<open>United States\<close>: \<open>companies.map\<close> throws when \<open>companies\<close> is not an array.
\<close>

definition enrich_selected ::
  "(rat \<Rightarrow> string) \<Rightarrow> database \<Rightarrow> string \<Rightarrow> jsobject array_field \<Rightarrow>
     error + jsobject array_field" where
  "enrich_selected numberToString db countryName selected =
     (if startsWith countryName ''United States''
      then (case selected of
              NotArray _ \<Rightarrow> Inl TypeError
            | IsArray cs \<Rightarrow>
                Inr (IsArray (enrichCompanies numberToString
                                (incomeusa db) (valuation_metrics_coll db) cs)))
      else Inr selected)"

text \<open>The body of the companies handler is \<open>{exchangeName, companies}\<close>.\<close>

definition companies_handler ::
  "(rat \<Rightarrow> string) \<Rightarrow> database \<Rightarrow> string \<Rightarrow> string option \<Rightarrow>
     (string \<times> jsobject array_field) response" where
  "companies_handler numberToString db countryName category =
     (if \<not> connected db then JsonMessage 500 ''Server error''
      else (case saascompnies db of
              None \<Rightarrow> JsonMessage 404 ''No data found''
            | Some data \<Rightarrow>
                (case regions data of
                   None \<Rightarrow> JsonMessage 404 ''No data found''
                 | Some rs \<Rightarrow>
                     (case findRegion rs countryName of
                        None \<Rightarrow> JsonMessage 404 ''Country not found''
                      | Some matchingRegion \<Rightarrow>
                          (case selectCompanies matchingRegion countryName category of
                             Inl _ \<Rightarrow> JsonMessage 500 ''Server error''
                           | Inr selected \<Rightarrow>
                               (case enrich_selected numberToString db countryName selected of
                                  Inl _ \<Rightarrow> JsonMessage 500 ''Server error''
                                | Inr enriched \<Rightarrow>
                                    Json 200
                                      (case exchangeName matchingRegion of
                                         None \<Rightarrow> ''Unknown Exchange''
                                       | Some n \<Rightarrow> if n = [] then ''Unknown Exchange'' else n,
                                       enriched)))))))"

subsection \<open>POST /api/notifications/subscribe\<close>

text \<open>
  \<open>/^[^\s@]+@[^\s@]+\.[^\s@]+$/.test(s)\<close>. The part before the first \<open>@\<close> is not empty and
  has no white space; what follows that \<open>@\<close> has neither white space nor \<open>@\<close>, and has a
  dot that is neither its first nor its last character.
\<close>

definition emailRegex_test :: "string \<Rightarrow> bool" where
  "emailRegex_test s =
     (let local = takeWhile (\<lambda>c. c \<noteq> CHR ''@'') s;
          rest = drop (length local) s
      in local \<noteq> [] \<and> list_all (\<lambda>c. \<not> is_space c) local \<and>
         (case rest of
            [] \<Rightarrow> False
          | _ # domain \<Rightarrow>
              list_all (\<lambda>c. \<not> is_space c \<and> c \<noteq> CHR ''@'') domain \<and>
              CHR ''.'' \<in> set (tl (butlast domain))))"

text \<open>
  The body of the request, the object that \<open>express.json()\<close> leaves in \<open>req.body\<close>: \<open>None\<close>
  is a field the body does not have; the two flags are read for their truth value only.
\<close>

record subscribe_request =
  req_email :: "string option"
  req_phone :: "string option"
  notifyAllCountries :: bool
  notifyMetricsUpdates :: bool

text \<open>An entry of \<open>results\<close>: \<open>false\<close>, \<open>'updated'\<close> or \<open>'created'\<close>.\<close>

datatype outcome = NotRequested | Updated | Created

text \<open>
  The schema of both subscription collections declares \<open>email\<close> with \<open>trim\<close> and
  \<open>lowercase\<close> and \<open>phone\<close> with \<open>trim\<close>: mongoose applies these to the values of a
  document it saves, of an update and of a filter. \<open>createdAt\<close> is left out.
\<close>

definition toLowerCase_char :: "char \<Rightarrow> char" where
  "toLowerCase_char c =
     (let n = (of_char c :: nat)
      in if (65 \<le> n \<and> n \<le> 90) \<or> (192 \<le> n \<and> n \<le> 222 \<and> n \<noteq> 215)
         then char_of (n + 32) else c)"

definition cast_email :: "string \<Rightarrow> string" where
  "cast_email e = map toLowerCase_char (trim e)"

definition cast_phone :: "string option \<Rightarrow> string option" where
  "cast_phone p = map_option trim p"

text \<open>\<open>Model.findOne({email})\<close>: the first document with that email.\<close>

definition findOne_email :: "subscription list \<Rightarrow> string \<Rightarrow> subscription option" where
  "findOne_email coll e = array_find (\<lambda>s. email s = cast_email e) coll"

text \<open>\<open>Model.updateOne({email}, {phone})\<close>: the first document with that email.\<close>

fun updateOne :: "subscription list \<Rightarrow> string \<Rightarrow> string option \<Rightarrow> subscription list" where
  "updateOne [] e p = []"
| "updateOne (s # ss) e p =
     (if email s = cast_email e then s\<lparr>phone := cast_phone p\<rparr> # ss else s # updateOne ss e p)"

text \<open>\<open>new Model({email, phone: phone || undefined}).save()\<close>\<close>

definition save_new :: "subscription list \<Rightarrow> string \<Rightarrow> string option \<Rightarrow> subscription list" where
  "save_new coll e p =
     coll @ [\<lparr>email = cast_email e,
              phone = (case p of None \<Rightarrow> None | Some ph \<Rightarrow> if ph \<noteq> [] then cast_phone p else None)\<rparr>]"

text \<open>
  One of the two blocks of the handler: look the email up, update the phone of the
  document found when a phone is given and differs from the stored one, save a new
  document when none is found.
\<close>

definition upsert :: "subscription list \<Rightarrow> string \<Rightarrow> string option \<Rightarrow> subscription list \<times> outcome" where
  "upsert coll e p =
     (let given = (case p of None \<Rightarrow> False | Some ph \<Rightarrow> ph \<noteq> []) in
      case findOne_email coll e of
        Some existing \<Rightarrow>
          (if given \<and> phone existing \<noteq> p then updateOne coll e p else coll, Updated)
      | None \<Rightarrow> (save_new coll e p, Created))"

definition subscribe_handler ::
  "database \<Rightarrow> subscribe_request \<Rightarrow> (outcome \<times> outcome) response \<times> database" where
  "subscribe_handler db req =
     (case req_email req of
        None \<Rightarrow> (JsonMessage 400 ''Email is required'', db)
      | Some e \<Rightarrow>
          if e = [] then (JsonMessage 400 ''Email is required'', db)
          else if \<not> emailRegex_test e then (JsonMessage 400 ''Invalid email format'', db)
          else if \<not> connected db then (JsonMessage 500 ''Server error'', db)
          else
            let (coll1, r1) =
                  (if notifyAllCountries req
                   then upsert (notification_subscriptions db) e (req_phone req)
                   else (notification_subscriptions db, NotRequested));
                (coll2, r2) =
                  (if notifyMetricsUpdates req
                   then upsert (metrics_update_subscriptions db) e (req_phone req)
                   else (metrics_update_subscriptions db, NotRequested))
            in (Json 201 (r1, r2),
                db\<lparr>notification_subscriptions := coll1, metrics_update_subscriptions := coll2\<rparr>))"

subsection \<open>GET /api/financials/:ticker\<close>

text \<open>
  The properties assigned to \<open>combinedData\<close> when valuation metrics exist; they replace
  the properties of the same name copied from the financial data.
\<close>

record assigned =
  a_growth_metrics :: "growth option"
  a_raw_values :: "raw option"
  a_market_cap :: "jsnum option"
  a_valuation_multiples :: jsval
  a_valuation_multiples_raw :: "multiples_raw option"
  a_latest_fiscal_year :: jsval
  a_current_revenue :: "jsnum option"
  a_current_grossProfit :: "jsnum option"
  a_current_netIncome :: "jsnum option"

definition assign_metrics :: "valuation_metrics \<Rightarrow> assigned" where
  "assign_metrics valuationMetrics =
     \<lparr>a_growth_metrics = growth_metrics valuationMetrics,
      a_raw_values = raw_values valuationMetrics,
      a_market_cap = vm_market_cap valuationMetrics,
      a_valuation_multiples = valuation_multiples valuationMetrics,
      a_valuation_multiples_raw = valuation_multiples_raw valuationMetrics,
      a_latest_fiscal_year = latest_fiscal_year valuationMetrics,
      a_current_revenue = chain (raw_values valuationMetrics) current_revenue,
      a_current_grossProfit = chain (raw_values valuationMetrics) current_grossProfit,
      a_current_netIncome = chain (raw_values valuationMetrics) current_netIncome\<rparr>"

text \<open>\<open>Model.findOne({ticker})\<close>: the first document of the collection with that ticker.\<close>

definition findOne :: "('d \<Rightarrow> string option) \<Rightarrow> 'd list \<Rightarrow> string \<Rightarrow> 'd option" where
  "findOne ticker_of coll t = array_find (\<lambda>d. ticker_of d = Some t) coll"

definition financials_handler ::
  "database \<Rightarrow> string \<Rightarrow> (financial_data \<times> assigned option) response" where
  "financials_handler db t =
     (if \<not> connected db then JsonMessage 500 ''Server error''
      else
        let valuationMetrics = findOne vm_ticker (valuation_metrics_coll db) t;
            financialData = findOne fd_ticker (incomeusa db) t
        in case financialData of
             None \<Rightarrow> JsonMessage 404 ''Financial data not found''
           | Some fd \<Rightarrow> Json 200 (fd, map_option assign_metrics valuationMetrics))"

section \<open>Properties\<close>

lemma startsWith_prefix: "startsWith s p \<longleftrightarrow> prefix p s"
  unfolding startsWith_def
  by (metis prefix_def append_eq_conv_conj take_is_prefix)

lemma array_find_None_iff: "array_find p xs = None \<longleftrightarrow> (\<forall>x\<in>set xs. \<not> p x)"
  by (induction xs) auto

lemma array_find_Some_iff:
  "array_find p xs = Some x \<longleftrightarrow>
     (\<exists>i<length xs. xs ! i = x \<and> p x \<and> (\<forall>j<i. \<not> p (xs ! j)))"
proof (induction xs)
  case Nil
  then show ?case by simp
next
  case (Cons y ys)
  show ?case
  proof (cases "p y")
    case True
    then show ?thesis
      apply auto
      apply (metis gr_zeroI nth_Cons_0)
      done
  next
    case False
    have "(\<exists>i<length (y # ys). (y # ys) ! i = x \<and> p x \<and> (\<forall>j<i. \<not> p ((y # ys) ! j)))
      \<longleftrightarrow> (\<exists>i<length ys. ys ! i = x \<and> p x \<and> (\<forall>j<i. \<not> p (ys ! j)))" (is "?L \<longleftrightarrow> ?R")
    proof
      assume ?L
      then obtain i where i: "i < length (y # ys)" "(y # ys) ! i = x" "p x" "\<forall>j<i. \<not> p ((y # ys) ! j)"
        by blast
      with False obtain k where k: "i = Suc k" by (cases i) auto
      with i have "k < length ys" "ys ! k = x" by auto
      moreover have "\<forall>j<k. \<not> p (ys ! j)"
      proof (intro allI impI)
        fix j assume "j < k"
        then have "Suc j < i" using k by simp
        with i(4) have "\<not> p ((y # ys) ! Suc j)" by blast
        then show "\<not> p (ys ! j)" by simp
      qed
      ultimately show ?R using i(3) by blast
    next
      assume ?R
      then obtain k where k: "k < length ys" "ys ! k = x" "p x" "\<forall>j<k. \<not> p (ys ! j)"
        by blast
      have "\<forall>j<Suc k. \<not> p ((y # ys) ! j)"
      proof (intro allI impI)
        fix j assume "j < Suc k"
        then show "\<not> p ((y # ys) ! j)" using False k(4) by (cases j) auto
      qed
      with k show ?L by (intro exI[of _ "Suc k"]) auto
    qed
    with False Cons.IH show ?thesis by simp
  qed
qed

lemma add_category_fold:
  "foldl add_category acc cats =
     acc @ concat (map (\<lambda>c. case cat_companies c of IsArray cs \<Rightarrow> cs | NotArray _ \<Rightarrow> []) cats)"
  by (induction cats arbitrary: acc) (auto simp: add_category_def split: array_field.splits)

text \<open>
  \<^bold>\<open>C8.\<close> For a country name that starts with \<open>United States\<close>, with no category or
  with the category \<open>All\<close>, the selected companies are the concatenation of the companies
  of every category of the region, in the order of the categories and, within one, in
  their own order; a category whose \<open>companies\<close> is missing or not an array adds nothing.
\<close>

theorem selectCompanies_all_categories:
  assumes "startsWith countryName ''United States''"
    and "category = None \<or> category = Some ''All''"
    and "categories r = Some cats"
  shows "selectCompanies r countryName category =
           Inr (IsArray (concat (map (\<lambda>c. case cat_companies c of IsArray cs \<Rightarrow> cs | NotArray _ \<Rightarrow> []) cats)))"
  using assms by (auto simp: selectCompanies_def add_category_fold)

text \<open>
  \<^bold>\<open>C7.\<close> For every region list and every country name (a route parameter, never empty),
  \<open>findRegion\<close> returns the first region whose name starts with that exact string: nothing
  when no name has it as a prefix, and otherwise the region at the least index whose name
  has. The match is a prefix match on the whole name, parenthetical qualifier included:
  \<open>United States\<close> finds a region named \<open>United States (NYSE/NASDAQ)\<close>, while a
  different case, an inner substring or a longer string do not.
\<close>

theorem findRegion_first_prefix_match:
  assumes "countryName \<noteq> []"
  shows "(findRegion rs countryName = None \<longleftrightarrow>
            (\<forall>r\<in>set rs. \<forall>n. name r = Some n \<longrightarrow> \<not> prefix countryName n))
       \<and> (\<forall>r. findRegion rs countryName = Some r \<longleftrightarrow>
            (\<exists>i<length rs. rs ! i = r
                \<and> (\<exists>n. name r = Some n \<and> prefix countryName n)
                \<and> (\<forall>j<i. \<forall>n. name (rs ! j) = Some n \<longrightarrow> \<not> prefix countryName n)))
       \<and> (\<forall>r. name r = Some ''United States (NYSE/NASDAQ)'' \<longrightarrow>
            findRegion (r # rs) ''United States'' = Some r
            \<and> findRegion [r] ''united states'' = None
            \<and> findRegion [r] ''States'' = None
            \<and> findRegion [r] ''United States (NYSE/NASDAQ) '' = None)"
proof -
  have m: "region_matches countryName r \<longleftrightarrow> (\<exists>n. name r = Some n \<and> prefix countryName n)" for r
    using assms by (auto simp: region_matches_def startsWith_prefix split: option.splits)
  have 1: "findRegion rs countryName = None \<longleftrightarrow>
            (\<forall>r\<in>set rs. \<forall>n. name r = Some n \<longrightarrow> \<not> prefix countryName n)"
    unfolding findRegion_def array_find_None_iff m by blast
  have 2: "findRegion rs countryName = Some r \<longleftrightarrow>
            (\<exists>i<length rs. rs ! i = r
                \<and> (\<exists>n. name r = Some n \<and> prefix countryName n)
                \<and> (\<forall>j<i. \<forall>n. name (rs ! j) = Some n \<longrightarrow> \<not> prefix countryName n))" for r
    unfolding findRegion_def array_find_Some_iff m by blast
  have 3: "findRegion (r # rs) ''United States'' = Some r
            \<and> findRegion [r] ''united states'' = None
            \<and> findRegion [r] ''States'' = None
            \<and> findRegion [r] ''United States (NYSE/NASDAQ) '' = None"
    if "name r = Some ''United States (NYSE/NASDAQ)''" for r
    using that by (simp add: findRegion_def region_matches_def startsWith_def)
  from 1 2 3 show ?thesis by blast
qed

theorem findRegion_first_prefix_match_witness:
  "''Canada'' \<noteq> []
   \<and> findRegion
       [\<lparr>name = Some ''India (NSE)'', exchangeName = None, companies = IsArray [], categories = None\<rparr>,
        \<lparr>name = Some ''Canada (TSX)'', exchangeName = Some ''TSX'', companies = IsArray [], categories = None\<rparr>,
        \<lparr>name = Some ''Canada (TSXV)'', exchangeName = None, companies = NotArray JUndefined, categories = None\<rparr>]
       ''Canada''
     = Some \<lparr>name = Some ''Canada (TSX)'', exchangeName = Some ''TSX'', companies = IsArray [], categories = None\<rparr>"
proof -
  have h: "''Canada'' \<noteq> []" by simp
  show ?thesis
    using findRegion_first_prefix_match [OF h, of
       "[\<lparr>name = Some ''India (NSE)'', exchangeName = None, companies = IsArray [], categories = None\<rparr>,
        \<lparr>name = Some ''Canada (TSX)'', exchangeName = Some ''TSX'', companies = IsArray [], categories = None\<rparr>,
        \<lparr>name = Some ''Canada (TSXV)'', exchangeName = None, companies = NotArray JUndefined, categories = None\<rparr>]"]
    by (simp add: findRegion_def region_matches_def startsWith_def)
qed

theorem selectCompanies_all_categories_witness:
  "startsWith ''United States'' ''United States''
   \<and> selectCompanies
       \<lparr>name = Some ''United States (NYSE/NASDAQ)'', exchangeName = None, companies = NotArray JUndefined,
        categories = Some
          [\<lparr>cat_name = Some ''CRM'', cat_companies = IsArray [[(''ticker'', JStr ''CRM'')], [(''ticker'', JStr ''HUBS'')]]\<rparr>,
           \<lparr>cat_name = Some ''Empty'', cat_companies = NotArray JUndefined\<rparr>,
           \<lparr>cat_name = Some ''Security'', cat_companies = IsArray [[(''ticker'', JStr ''CRWD'')]]\<rparr>]\<rparr>
       ''United States'' (Some ''All'')
     = Inr (IsArray [[(''ticker'', JStr ''CRM'')], [(''ticker'', JStr ''HUBS'')], [(''ticker'', JStr ''CRWD'')]])"
proof -
  have h: "startsWith ''United States'' ''United States''" by (simp add: startsWith_def)
  show ?thesis
    using h selectCompanies_all_categories [OF h, of "Some ''All''"
       "\<lparr>name = Some ''United States (NYSE/NASDAQ)'', exchangeName = None, companies = NotArray JUndefined,
        categories = Some
          [\<lparr>cat_name = Some ''CRM'', cat_companies = IsArray [[(''ticker'', JStr ''CRM'')], [(''ticker'', JStr ''HUBS'')]]\<rparr>,
           \<lparr>cat_name = Some ''Empty'', cat_companies = NotArray JUndefined\<rparr>,
           \<lparr>cat_name = Some ''Security'', cat_companies = IsArray [[(''ticker'', JStr ''CRWD'')]]\<rparr>]\<rparr>"]
    by simp
qed

lemma findOne_None_iff: "findOne f coll t = None \<longleftrightarrow> (\<forall>d\<in>set coll. f d \<noteq> Some t)"
  by (simp add: findOne_def array_find_None_iff)

text \<open>
  \<^bold>\<open>C10.\<close> With the store reachable, the financials handler answers 404 exactly when
  the financial data collection has no document of the ticker, and 200 exactly when it
  has one. The valuation metrics play no part in it: a ticker with valuation metrics and
  no financial data gets 404.
\<close>

theorem financials_404_iff_no_financial_data:
  assumes "connected db"
  shows "(status_of (financials_handler db t) = 404 \<longleftrightarrow> (\<forall>d\<in>set (incomeusa db). fd_ticker d \<noteq> Some t))
       \<and> (status_of (financials_handler db t) = 200 \<longleftrightarrow> (\<exists>d\<in>set (incomeusa db). fd_ticker d = Some t))
       \<and> ((\<exists>v\<in>set (valuation_metrics_coll db). vm_ticker v = Some t)
            \<and> (\<forall>d\<in>set (incomeusa db). fd_ticker d \<noteq> Some t)
          \<longrightarrow> financials_handler db t = JsonMessage 404 ''Financial data not found'')"
proof (cases "findOne fd_ticker (incomeusa db) t")
  case None
  then show ?thesis
    using assms None[unfolded findOne_None_iff]
    by (auto simp: financials_handler_def Let_def)
next
  case (Some fd)
  then have "\<not> (\<forall>d\<in>set (incomeusa db). fd_ticker d \<noteq> Some t)"
    using findOne_None_iff[of fd_ticker "incomeusa db" t] by simp
  then show ?thesis
    using assms Some by (auto simp: financials_handler_def Let_def)
qed

lemma is_space_dot: "\<not> is_space CHR ''.''"
  by (simp add: is_space_def)

lemma emailRegex_test_complete:
  assumes "s = a @ ''@'' @ b @ ''.'' @ c" "a \<noteq> []" "b \<noteq> []" "c \<noteq> []"
    and ok: "\<forall>x\<in>set (a @ b @ c). \<not> is_space x \<and> x \<noteq> CHR ''@''"
  shows "emailRegex_test s"
proof -
  have tw: "takeWhile (\<lambda>c. c \<noteq> CHR ''@'') s = a"
    using assms(1) ok by (simp add: takeWhile_tail)
  have rest: "drop (length a) s = CHR ''@'' # (b @ CHR ''.'' # c)"
    using assms(1) by simp
  have bl: "butlast (b @ CHR ''.'' # c) = b @ CHR ''.'' # butlast c"
    using assms(4) by (simp add: butlast_append)
  have "tl (b @ CHR ''.'' # butlast c) = tl b @ CHR ''.'' # butlast c"
    using assms(3) by simp
  then have dot: "CHR ''.'' \<in> set (tl (butlast (b @ CHR ''.'' # c)))"
    using bl by simp
  have all: "list_all (\<lambda>c. \<not> is_space c \<and> c \<noteq> CHR ''@'') (b @ CHR ''.'' # c)"
    using ok by (auto simp: list_all_iff is_space_dot)
  have loc: "list_all (\<lambda>c. \<not> is_space c) a"
    using ok by (auto simp: list_all_iff)
  show ?thesis
    unfolding emailRegex_test_def Let_def tw rest
    using assms(2) loc all dot by simp
qed

lemma emailRegex_test_sound:
  assumes "emailRegex_test s"
  shows "\<exists>a b c. s = a @ ''@'' @ b @ ''.'' @ c \<and> a \<noteq> [] \<and> b \<noteq> [] \<and> c \<noteq> []
            \<and> (\<forall>x\<in>set (a @ b @ c). \<not> is_space x \<and> x \<noteq> CHR ''@'')"
proof -
  define a where "a = takeWhile (\<lambda>c. c \<noteq> CHR ''@'') s"
  define rest where "rest = drop (length a) s"
  have t: "a \<noteq> [] \<and> list_all (\<lambda>c. \<not> is_space c) a \<and>
         (case rest of
            [] \<Rightarrow> False
          | _ # dmain \<Rightarrow>
              list_all (\<lambda>c. \<not> is_space c \<and> c \<noteq> CHR ''@'') dmain \<and>
              CHR ''.'' \<in> set (tl (butlast dmain)))"
    using assms unfolding emailRegex_test_def Let_def a_def[symmetric] rest_def[symmetric] .
  then obtain h dm where r: "rest = h # dm"
    by (cases rest) auto
  note a = conjunct1[OF t] conjunct1[OF conjunct2[OF t]]
  note t3 = conjunct2[OF conjunct2[OF t]]
  from t3 have d: "list_all (\<lambda>c. \<not> is_space c \<and> c \<noteq> CHR ''@'') dm" "CHR ''.'' \<in> set (tl (butlast dm))"
    unfolding r list.case by (rule conjunct1, rule conjunct2)
  have rd: "rest = dropWhile (\<lambda>c. c \<noteq> CHR ''@'') s"
    unfolding rest_def a_def by (simp add: dropWhile_eq_drop)
  have s: "s = a @ rest"
    unfolding rd a_def by simp
  from rd r have "dropWhile (\<lambda>c. c \<noteq> CHR ''@'') s = h # dm"
    by simp
  then have h: "h = CHR ''@''"
    unfolding dropWhile_eq_Cons_conv by simp
  from d(2) obtain u v where uv: "tl (butlast dm) = u @ CHR ''.'' # v"
    using split_list by fastforce
  then have ne: "butlast dm \<noteq> []" by auto
  then have dne: "dm \<noteq> []" by auto
  obtain x where x: "butlast dm = x # u @ CHR ''.'' # v"
    using uv ne by (cases "butlast dm") auto
  have "dm = butlast dm @ [last dm]"
    using dne by simp
  then have dm: "dm = (x # u) @ ''.'' @ (v @ [last dm])"
    using x by simp
  have noat: "\<forall>x\<in>set a. x \<noteq> CHR ''@''"
    unfolding a_def using set_takeWhileD by fastforce
  have sub: "set (a @ (x # u) @ (v @ [last dm])) \<subseteq> set a \<union> set dm"
  proof -
    have "set dm = set ((x # u) @ ''.'' @ (v @ [last dm]))" using dm by simp
    then show ?thesis by auto
  qed
  have ok: "\<forall>y\<in>set (a @ (x # u) @ (v @ [last dm])). \<not> is_space y \<and> y \<noteq> CHR ''@''"
  proof
    fix y assume "y \<in> set (a @ (x # u) @ (v @ [last dm]))"
    with sub have "y \<in> set a \<or> y \<in> set dm" by blast
    then show "\<not> is_space y \<and> y \<noteq> CHR ''@''"
      using a(2) d(1) noat by (auto simp: list_all_iff)
  qed
  have "s = a @ ''@'' @ (x # u) @ ''.'' @ (v @ [last dm])"
    using s r h dm by simp
  with a(1) ok show ?thesis
    by (intro exI[of _ a] exI[of _ "x # u"] exI[of _ "v @ [last dm]"]) simp
qed

lemma emailRegex_test_iff:
  "emailRegex_test s \<longleftrightarrow>
     (\<exists>a b c. s = a @ ''@'' @ b @ ''.'' @ c \<and> a \<noteq> [] \<and> b \<noteq> [] \<and> c \<noteq> []
            \<and> (\<forall>x\<in>set (a @ b @ c). \<not> is_space x \<and> x \<noteq> CHR ''@''))"
proof
  assume "emailRegex_test s"
  then show "\<exists>a b c. s = a @ ''@'' @ b @ ''.'' @ c \<and> a \<noteq> [] \<and> b \<noteq> [] \<and> c \<noteq> []
            \<and> (\<forall>x\<in>set (a @ b @ c). \<not> is_space x \<and> x \<noteq> CHR ''@'')"
    by (rule emailRegex_test_sound)
next
  assume "\<exists>a b c. s = a @ ''@'' @ b @ ''.'' @ c \<and> a \<noteq> [] \<and> b \<noteq> [] \<and> c \<noteq> []
            \<and> (\<forall>x\<in>set (a @ b @ c). \<not> is_space x \<and> x \<noteq> CHR ''@'')"
  then obtain a b c where "s = a @ ''@'' @ b @ ''.'' @ c" "a \<noteq> []" "b \<noteq> []" "c \<noteq> []"
    "\<forall>x\<in>set (a @ b @ c). \<not> is_space x \<and> x \<noteq> CHR ''@''"
    by (elim exE conjE)
  then show "emailRegex_test s"
    by (rule emailRegex_test_complete)
qed

text \<open>
  \<^bold>\<open>C9.\<close> A subscribe request whose email is missing or does not match the email
  format is answered with status 400, and the store after the request is the store
  before it: no subscription is created or updated in either collection.
\<close>

theorem subscribe_invalid_email_no_write:
  assumes "req_email req = None \<or> (\<exists>e. req_email req = Some e \<and> \<not> emailRegex_test e)"
  shows "status_of (fst (subscribe_handler db req)) = 400 \<and> snd (subscribe_handler db req) = db"
  using assms by (auto simp: subscribe_handler_def split: option.splits)

theorem subscribe_invalid_email_no_write_witness:
  "\<not> emailRegex_test ''not-an-email''
   \<and> subscribe_handler
        \<lparr>connected = True, saascompnies = None, incomeusa = [], valuation_metrics_coll = [],
         notification_subscriptions = [\<lparr>email = ''a@b.co'', phone = None\<rparr>],
         metrics_update_subscriptions = []\<rparr>
        \<lparr>req_email = Some ''not-an-email'', req_phone = Some ''555'',
         notifyAllCountries = True, notifyMetricsUpdates = True\<rparr>
      = (JsonMessage 400 ''Invalid email format'',
         \<lparr>connected = True, saascompnies = None, incomeusa = [], valuation_metrics_coll = [],
          notification_subscriptions = [\<lparr>email = ''a@b.co'', phone = None\<rparr>],
          metrics_update_subscriptions = []\<rparr>)"
proof -
  have h: "\<not> emailRegex_test ''not-an-email''"
    by (simp add: emailRegex_test_def)
  have r: "req_email \<lparr>req_email = Some ''not-an-email'', req_phone = Some ''555'',
         notifyAllCountries = True, notifyMetricsUpdates = True\<rparr> = None
       \<or> (\<exists>e. req_email \<lparr>req_email = Some ''not-an-email'', req_phone = Some ''555'',
         notifyAllCountries = True, notifyMetricsUpdates = True\<rparr> = Some e \<and> \<not> emailRegex_test e)"
    using h by simp
  show ?thesis
    using h subscribe_invalid_email_no_write [OF r, of
        "\<lparr>connected = True, saascompnies = None, incomeusa = [], valuation_metrics_coll = [],
         notification_subscriptions = [\<lparr>email = ''a@b.co'', phone = None\<rparr>],
         metrics_update_subscriptions = []\<rparr>"]
    by (simp add: subscribe_handler_def)
qed

theorem financials_404_iff_no_financial_data_witness:
  "connected
     \<lparr>connected = True, saascompnies = None,
      incomeusa = [\<lparr>fd_ticker = Some ''CRM'', income_statement = None, market_cap = None\<rparr>],
      valuation_metrics_coll =
        [\<lparr>vm_ticker = Some ''ZM'', vm_market_cap = Some (Fin 100), latest_fiscal_year = JUndefined,
          growth_metrics = None, raw_values = None, valuation_multiples = JUndefined,
          valuation_multiples_raw = None\<rparr>],
      notification_subscriptions = [], metrics_update_subscriptions = []\<rparr>
   \<and> financials_handler
     \<lparr>connected = True, saascompnies = None,
      incomeusa = [\<lparr>fd_ticker = Some ''CRM'', income_statement = None, market_cap = None\<rparr>],
      valuation_metrics_coll =
        [\<lparr>vm_ticker = Some ''ZM'', vm_market_cap = Some (Fin 100), latest_fiscal_year = JUndefined,
          growth_metrics = None, raw_values = None, valuation_multiples = JUndefined,
          valuation_multiples_raw = None\<rparr>],
      notification_subscriptions = [], metrics_update_subscriptions = []\<rparr> ''ZM''
     = JsonMessage 404 ''Financial data not found''"
proof -
  have h: "connected
     \<lparr>connected = True, saascompnies = None,
      incomeusa = [\<lparr>fd_ticker = Some ''CRM'', income_statement = None, market_cap = None\<rparr>],
      valuation_metrics_coll =
        [\<lparr>vm_ticker = Some ''ZM'', vm_market_cap = Some (Fin 100), latest_fiscal_year = JUndefined,
          growth_metrics = None, raw_values = None, valuation_multiples = JUndefined,
          valuation_multiples_raw = None\<rparr>],
      notification_subscriptions = [], metrics_update_subscriptions = []\<rparr>"
    by simp
  show ?thesis
    using h financials_404_iff_no_financial_data [OF h, of "''ZM''"]
    by simp
qed

lemma get_prop_spread_with: "get_prop (spread_with obj k v) k = v"
  by (induction obj k v rule: spread_with.induct) (auto simp: get_prop_def)

lemma has_key_spread_with: "has_key (spread_with obj k v) k"
  by (induction obj k v rule: spread_with.induct) (auto simp: has_key_def)

lemma get_prop_no_key: "\<not> has_key obj k \<Longrightarrow> get_prop obj k = JUndefined"
  by (auto simp: get_prop_def has_key_def map_of_eq_None_iff[symmetric] split: option.splits)

lemma latest_empty:
  "latestIncomeStatement empty_financial_data = None"
  "latestMarketCap empty_financial_data = None"
  by (simp_all add: latestIncomeStatement_def latestMarketCap_def empty_financial_data_def)

text \<open>
  \<^bold>\<open>C4.\<close> When the valuation metrics of a company have neither \<open>growth_metrics\<close> nor
  \<open>raw_values\<close> (or there are none), and its financial data do not give both a latest
  income statement and a latest market cap entry, enrichment returns the company record
  unchanged; no \<open>financials\<close> key is added to it, not even one holding \<open>null\<close> or \<open>{}\<close>.
\<close>

theorem enrich_no_data_unchanged:
  assumes "\<forall>v. vm = Some v \<longrightarrow> growth_metrics v = None \<and> raw_values v = None"
    and "\<forall>d. fd = Some d \<longrightarrow> latestIncomeStatement d = None \<or> latestMarketCap d = None"
  shows "enrich numberToString company fd vm = company
       \<and> (\<not> has_key company ''financials'' \<longrightarrow>
            \<not> has_key (enrich numberToString company fd vm) ''financials''
            \<and> get_prop (enrich numberToString company fd vm) ''financials'' = JUndefined)"
proof -
  have v: "growth_metrics (case vm of Some v \<Rightarrow> v | None \<Rightarrow> empty_valuation_metrics) = None"
          "raw_values (case vm of Some v \<Rightarrow> v | None \<Rightarrow> empty_valuation_metrics) = None"
    using assms(1) by (auto simp: empty_valuation_metrics_def split: option.splits)
  have d: "latestIncomeStatement (case fd of Some d \<Rightarrow> d | None \<Rightarrow> empty_financial_data) = None
         \<or> latestMarketCap (case fd of Some d \<Rightarrow> d | None \<Rightarrow> empty_financial_data) = None"
    using assms(2) by (auto simp: latest_empty split: option.splits)
  have "enrich numberToString company fd vm = company"
    unfolding enrich_def Let_def using v d by (auto split: option.splits)
  then show ?thesis by (simp add: get_prop_no_key)
qed

theorem enrich_no_data_unchanged_witness:
  "enrich (\<lambda>_. [])
     [(''ticker'', JStr ''ZM''), (''name'', JStr ''Zoom'')]
     (Some \<lparr>fd_ticker = Some ''ZM'',
            income_statement = Some [\<lparr>date = Some 1672531200000, revenue = Some (Fin 4000), grossProfit = None,
                                      netIncome = Some (Fin 100), calendarYear = JStr ''2023''\<rparr>],
            market_cap = Some []\<rparr>)
     (Some \<lparr>vm_ticker = Some ''ZM'', vm_market_cap = Some (Fin 100), latest_fiscal_year = JUndefined,
          growth_metrics = None, raw_values = None, valuation_multiples = JUndefined,
          valuation_multiples_raw = None\<rparr>)
   = [(''ticker'', JStr ''ZM''), (''name'', JStr ''Zoom'')]
   \<and> \<not> has_key (enrich (\<lambda>_. [])
     [(''ticker'', JStr ''ZM''), (''name'', JStr ''Zoom'')]
     (Some \<lparr>fd_ticker = Some ''ZM'',
            income_statement = Some [\<lparr>date = Some 1672531200000, revenue = Some (Fin 4000), grossProfit = None,
                                      netIncome = Some (Fin 100), calendarYear = JStr ''2023''\<rparr>],
            market_cap = Some []\<rparr>)
     (Some \<lparr>vm_ticker = Some ''ZM'', vm_market_cap = Some (Fin 100), latest_fiscal_year = JUndefined,
          growth_metrics = None, raw_values = None, valuation_multiples = JUndefined,
          valuation_multiples_raw = None\<rparr>)) ''financials''"
  using enrich_no_data_unchanged [of
     "Some \<lparr>vm_ticker = Some ''ZM'', vm_market_cap = Some (Fin 100), latest_fiscal_year = JUndefined,
          growth_metrics = None, raw_values = None, valuation_multiples = JUndefined,
          valuation_multiples_raw = None\<rparr>"
     "Some \<lparr>fd_ticker = Some ''ZM'',
            income_statement = Some [\<lparr>date = Some 1672531200000, revenue = Some (Fin 4000), grossProfit = None,
                                      netIncome = Some (Fin 100), calendarYear = JStr ''2023''\<rparr>],
            market_cap = Some []\<rparr>"
     "\<lambda>_. []" "[(''ticker'', JStr ''ZM''), (''name'', JStr ''Zoom'')]"]
  by (simp add: latestMarketCap_def has_key_def)

lemma get_prop_marketCap_precomputed:
  "get_prop (precomputed_financials numberToString v latest) ''marketCap'' = field_value (vm_market_cap v)"
  by (simp add: precomputed_financials_def get_prop_def Let_def)

text \<open>
  \<^bold>\<open>C1.\<close> When the valuation metrics of a company are present and have \<open>growth_metrics\<close>
  or \<open>raw_values\<close>, enrichment builds \<open>financials\<close> from the pre-calculated metrics,
  whatever the financial data are, and \<open>financials.marketCap\<close> is the \<open>market_cap\<close> of the
  valuation metrics, not the market cap of the latest entry of the financial data.
\<close>

theorem enrich_precomputed_wins:
  assumes "growth_metrics v \<noteq> None \<or> raw_values v \<noteq> None"
  shows "enrich numberToString company fd (Some v)
           = spread_with company ''financials''
               (JObj (precomputed_financials numberToString v
                  (latestIncomeStatement (case fd of Some d \<Rightarrow> d | None \<Rightarrow> empty_financial_data))))
       \<and> financials_field (enrich numberToString company fd (Some v)) ''marketCap''
           = field_value (vm_market_cap v)"
proof -
  have e: "enrich numberToString company fd (Some v)
           = spread_with company ''financials''
               (JObj (precomputed_financials numberToString v
                  (latestIncomeStatement (case fd of Some d \<Rightarrow> d | None \<Rightarrow> empty_financial_data))))"
    using assms unfolding enrich_def Let_def by auto
  show ?thesis
    unfolding e financials_field_def get_prop_spread_with
    by (simp add: get_prop_marketCap_precomputed)
qed

theorem enrich_precomputed_wins_witness:
  "raw_values \<lparr>vm_ticker = Some ''CRM'', vm_market_cap = Some (Fin 100), latest_fiscal_year = JStr ''2023'',
          growth_metrics = None,
          raw_values = Some \<lparr>current_revenue = Some (Fin 30), current_grossProfit = None, current_netIncome = None\<rparr>,
          valuation_multiples = JUndefined, valuation_multiples_raw = None\<rparr> \<noteq> None
   \<and> latestMarketCap
        \<lparr>fd_ticker = Some ''CRM'',
         income_statement = Some [\<lparr>date = Some 1672531200000, revenue = Some (Fin 31), grossProfit = Some (Fin 20),
                                   netIncome = Some (Fin 2), calendarYear = JStr ''2023''\<rparr>],
         market_cap = Some [\<lparr>mc_date = Some 1672531200000, marketCap = Some (Fin 999)\<rparr>]\<rparr>
       = Some \<lparr>mc_date = Some 1672531200000, marketCap = Some (Fin 999)\<rparr>
   \<and> financials_field
       (enrich (\<lambda>_. []) [(''ticker'', JStr ''CRM'')]
          (Some \<lparr>fd_ticker = Some ''CRM'',
             income_statement = Some [\<lparr>date = Some 1672531200000, revenue = Some (Fin 31), grossProfit = Some (Fin 20),
                                   netIncome = Some (Fin 2), calendarYear = JStr ''2023''\<rparr>],
             market_cap = Some [\<lparr>mc_date = Some 1672531200000, marketCap = Some (Fin 999)\<rparr>]\<rparr>)
          (Some \<lparr>vm_ticker = Some ''CRM'', vm_market_cap = Some (Fin 100), latest_fiscal_year = JStr ''2023'',
             growth_metrics = None,
             raw_values = Some \<lparr>current_revenue = Some (Fin 30), current_grossProfit = None, current_netIncome = None\<rparr>,
             valuation_multiples = JUndefined, valuation_multiples_raw = None\<rparr>))
       ''marketCap''
     = JNum (Fin 100)"
proof -
  have h: "growth_metrics \<lparr>vm_ticker = Some ''CRM'', vm_market_cap = Some (Fin 100), latest_fiscal_year = JStr ''2023'',
          growth_metrics = None,
          raw_values = Some \<lparr>current_revenue = Some (Fin 30), current_grossProfit = None, current_netIncome = None\<rparr>,
          valuation_multiples = JUndefined, valuation_multiples_raw = None\<rparr> \<noteq> None
    \<or> raw_values \<lparr>vm_ticker = Some ''CRM'', vm_market_cap = Some (Fin 100), latest_fiscal_year = JStr ''2023'',
          growth_metrics = None,
          raw_values = Some \<lparr>current_revenue = Some (Fin 30), current_grossProfit = None, current_netIncome = None\<rparr>,
          valuation_multiples = JUndefined, valuation_multiples_raw = None\<rparr> \<noteq> None"
    by simp
  note t = enrich_precomputed_wins [OF h, of "\<lambda>_. []" "[(''ticker'', JStr ''CRM'')]"
      "Some \<lparr>fd_ticker = Some ''CRM'',
             income_statement = Some [\<lparr>date = Some 1672531200000, revenue = Some (Fin 31), grossProfit = Some (Fin 20),
                                   netIncome = Some (Fin 2), calendarYear = JStr ''2023''\<rparr>],
             market_cap = Some [\<lparr>mc_date = Some 1672531200000, marketCap = Some (Fin 999)\<rparr>]\<rparr>"]
  show ?thesis
    using h conjunct2 [OF t] by (simp add: latestMarketCap_def)
qed

subsection \<open>The sort with a comparator\<close>

lemma insert_by_insort_key:
  assumes "dt x \<noteq> None" and "\<forall>y\<in>set ys. dt y \<noteq> None"
  shows "insert_by (\<lambda>a b. date_minus (dt b) (dt a)) x ys = insort_key (\<lambda>e. - the (dt e)) x ys"
  using assms
  by (induction ys) (auto simp: sort_compare_def date_minus_def)

lemma sort_by_sort_key:
  assumes "\<forall>x\<in>set xs. dt x \<noteq> None"
  shows "sort_by (\<lambda>a b. date_minus (dt b) (dt a)) xs = sort_key (\<lambda>e. - the (dt e)) xs"
  using assms
proof (induction xs)
  case Nil
  then show ?case by simp
next
  case (Cons x xs)
  then have ih: "sort_by (\<lambda>a b. date_minus (dt b) (dt a)) xs = sort_key (\<lambda>e. - the (dt e)) xs"
    by simp
  have "\<forall>y\<in>set (sort_key (\<lambda>e. - the (dt e)) xs). dt y \<noteq> None"
    using Cons.prems by simp
  with Cons.prems show ?case
    by (simp add: ih insert_by_insort_key)
qed

lemma set_insert_by: "set (insert_by cmp x ys) = insert x (set ys)"
  by (induction ys) auto

lemma set_sort_by: "set (sort_by cmp xs) = set xs"
  by (induction xs) (auto simp: set_insert_by)

lemma first_in_set: "xs \<noteq> [] \<Longrightarrow> \<exists>e\<in>set xs. first xs = Some e"
  by (cases xs) auto

lemma first_sort_by_member:
  assumes "xs \<noteq> []"
  shows "\<exists>e\<in>set xs. first (sort_by cmp xs) = Some e"
proof -
  have "sort_by cmp xs \<noteq> []"
    using assms set_sort_by[of cmp xs] by (metis set_empty)
  from first_in_set[OF this] show ?thesis
    by (simp add: set_sort_by)
qed

lemma array_find_filter:
  "filter p xs = e # r \<Longrightarrow> array_find p xs = Some e"
  by (induction xs) (auto split: if_splits)

lemma array_find_cong_set:
  "(\<And>x. x \<in> set xs \<Longrightarrow> p x = q x) \<Longrightarrow> array_find p xs = array_find q xs"
  by (induction xs) auto

lemma first_sort_by_latest:
  fixes dt :: "'a \<Rightarrow> int option"
  assumes "xs \<noteq> []" and valid: "\<forall>x\<in>set xs. dt x \<noteq> None"
  shows "\<exists>e t. first (sort_by (\<lambda>a b. date_minus (dt b) (dt a)) xs) = Some e \<and> e \<in> set xs
            \<and> dt e = Some t
            \<and> (\<forall>x\<in>set xs. \<exists>s. dt x = Some s \<and> s \<le> t)
            \<and> array_find (\<lambda>x. dt x = Some t) xs = Some e"
proof -
  define g where "g = (\<lambda>e. - the (dt e))"
  define ys where "ys = sort_key g xs"
  have ys: "sort_by (\<lambda>a b. date_minus (dt b) (dt a)) xs = ys"
    unfolding ys_def g_def using valid by (rule sort_by_sort_key)
  have "length ys = length xs" unfolding ys_def by simp
  with assms(1) obtain e r where er: "ys = e # r" by (cases ys) auto
  have set: "set ys = set xs" unfolding ys_def by simp
  then have mem: "e \<in> set xs" using er by auto
  with valid obtain t where t: "dt e = Some t" by auto
  have "sorted (map g ys)" unfolding ys_def by simp
  then have "\<forall>y\<in>set r. g e \<le> g y" using er by simp
  then have "\<forall>y\<in>set ys. the (dt y) \<le> t"
    using er t unfolding g_def by auto
  then have le: "\<forall>x\<in>set xs. the (dt x) \<le> t"
    unfolding set .
  have max: "\<forall>x\<in>set xs. \<exists>s. dt x = Some s \<and> s \<le> t"
  proof
    fix x assume x: "x \<in> set xs"
    with valid obtain s where "dt x = Some s" by auto
    with le x show "\<exists>s. dt x = Some s \<and> s \<le> t" by auto
  qed
  have "filter (\<lambda>y. g y = g e) ys = filter (\<lambda>y. g y = g e) xs"
    unfolding ys_def by (rule sort_key_stable)
  then have "filter (\<lambda>y. g y = g e) xs = e # filter (\<lambda>y. g y = g e) r"
    using er by simp
  then have "array_find (\<lambda>y. g y = g e) xs = Some e"
    by (rule array_find_filter)
  moreover have "array_find (\<lambda>x. dt x = Some t) xs = array_find (\<lambda>y. g y = g e) xs"
  proof (rule array_find_cong_set)
    fix x assume "x \<in> set xs"
    with valid obtain s where "dt x = Some s" by auto
    then show "(dt x = Some t) = (g x = g e)"
      unfolding g_def using t by auto
  qed
  ultimately show ?thesis
    using er mem t max unfolding ys by simp
qed

text \<open>
  \<^bold>\<open>C5\<close> (amended). The latest income statement of a ticker's financial data is \<open>null\<close>
  when the \<open>income_statement\<close> array is absent or empty, and an entry of the array
  otherwise. When every entry of the array has a valid date, it is an entry whose date is
  the maximum, the first such entry in the order of the array. The latest market cap entry
  comes from \<open>market_cap\<close> by the same rule. With two entries dated 2022-01-01 and
  2023-01-01, in either order, it is the entry of 2023.
\<close>

theorem latest_entry_has_maximum_date:
  "(income_statement fd = None \<or> income_statement fd = Some [] \<longrightarrow> latestIncomeStatement fd = None)
   \<and> (\<forall>es. income_statement fd = Some es \<and> es \<noteq> [] \<longrightarrow>
         (\<exists>e\<in>set es. latestIncomeStatement fd = Some e))
   \<and> (\<forall>es. income_statement fd = Some es \<and> es \<noteq> [] \<and> (\<forall>x\<in>set es. date x \<noteq> None) \<longrightarrow>
         (\<exists>e t. latestIncomeStatement fd = Some e \<and> e \<in> set es \<and> date e = Some t
            \<and> (\<forall>x\<in>set es. \<exists>s. date x = Some s \<and> s \<le> t)
            \<and> array_find (\<lambda>x. date x = Some t) es = Some e))
   \<and> (market_cap fd = None \<or> market_cap fd = Some [] \<longrightarrow> latestMarketCap fd = None)
   \<and> (\<forall>ms. market_cap fd = Some ms \<and> ms \<noteq> [] \<longrightarrow>
         (\<exists>m\<in>set ms. latestMarketCap fd = Some m))
   \<and> (\<forall>ms. market_cap fd = Some ms \<and> ms \<noteq> [] \<and> (\<forall>x\<in>set ms. mc_date x \<noteq> None) \<longrightarrow>
         (\<exists>m t. latestMarketCap fd = Some m \<and> m \<in> set ms \<and> mc_date m = Some t
            \<and> (\<forall>x\<in>set ms. \<exists>s. mc_date x = Some s \<and> s \<le> t)
            \<and> array_find (\<lambda>x. mc_date x = Some t) ms = Some m))
   \<and> (\<forall>a b. date a = Some 1640995200000 \<and> date b = Some 1672531200000 \<longrightarrow>
         latestIncomeStatement (fd\<lparr>income_statement := Some [a, b]\<rparr>) = Some b
         \<and> latestIncomeStatement (fd\<lparr>income_statement := Some [b, a]\<rparr>) = Some b)"
proof -
  have 1: "income_statement fd = None \<or> income_statement fd = Some [] \<longrightarrow> latestIncomeStatement fd = None"
    by (auto simp: latestIncomeStatement_def)
  have 2: "\<exists>e\<in>set es. latestIncomeStatement fd = Some e"
    if "income_statement fd = Some es \<and> es \<noteq> []" for es
    using that first_sort_by_member[of es "\<lambda>a b. date_minus (date b) (date a)"]
    by (simp add: latestIncomeStatement_def)
  have 3: "\<exists>e t. latestIncomeStatement fd = Some e \<and> e \<in> set es \<and> date e = Some t
            \<and> (\<forall>x\<in>set es. \<exists>s. date x = Some s \<and> s \<le> t)
            \<and> array_find (\<lambda>x. date x = Some t) es = Some e"
    if "income_statement fd = Some es \<and> es \<noteq> [] \<and> (\<forall>x\<in>set es. date x \<noteq> None)" for es
    using that first_sort_by_latest[of es date] by (simp add: latestIncomeStatement_def)
  have 4: "market_cap fd = None \<or> market_cap fd = Some [] \<longrightarrow> latestMarketCap fd = None"
    by (auto simp: latestMarketCap_def)
  have 5: "\<exists>m\<in>set ms. latestMarketCap fd = Some m"
    if "market_cap fd = Some ms \<and> ms \<noteq> []" for ms
    using that first_sort_by_member[of ms "\<lambda>a b. date_minus (mc_date b) (mc_date a)"]
    by (simp add: latestMarketCap_def)
  have 6: "\<exists>m t. latestMarketCap fd = Some m \<and> m \<in> set ms \<and> mc_date m = Some t
            \<and> (\<forall>x\<in>set ms. \<exists>s. mc_date x = Some s \<and> s \<le> t)
            \<and> array_find (\<lambda>x. mc_date x = Some t) ms = Some m"
    if "market_cap fd = Some ms \<and> ms \<noteq> [] \<and> (\<forall>x\<in>set ms. mc_date x \<noteq> None)" for ms
    using that first_sort_by_latest[of ms mc_date] by (simp add: latestMarketCap_def)
  have 7: "latestIncomeStatement (fd\<lparr>income_statement := Some [a, b]\<rparr>) = Some b
         \<and> latestIncomeStatement (fd\<lparr>income_statement := Some [b, a]\<rparr>) = Some b"
    if "date a = Some 1640995200000 \<and> date b = Some 1672531200000" for a b
    using that by (simp add: latestIncomeStatement_def sort_compare_def date_minus_def)
  show ?thesis
    apply (intro conjI allI impI)
    subgoal using 1 by blast
    subgoal for es using 2[of es] by blast
    subgoal for es using 3[of es] by blast
    subgoal using 4 by blast
    subgoal for ms using 5[of ms] by blast
    subgoal for ms using 6[of ms] by blast
    subgoal for a b using 7[of a b] by blast
    subgoal for a b using 7[of a b] by blast
    done
qed

theorem latest_entry_has_maximum_date_witness:
  "latestIncomeStatement
     \<lparr>fd_ticker = Some ''CRM'',
      income_statement = Some
        [\<lparr>date = Some 1640995200000, revenue = Some (Fin 26), grossProfit = None, netIncome = None,
          calendarYear = JStr ''2022''\<rparr>,
         \<lparr>date = Some 1672531200000, revenue = Some (Fin 31), grossProfit = None, netIncome = None,
          calendarYear = JStr ''2023''\<rparr>,
         \<lparr>date = Some 1609459200000, revenue = Some (Fin 21), grossProfit = None, netIncome = None,
          calendarYear = JStr ''2021''\<rparr>],
      market_cap = Some []\<rparr>
   = Some \<lparr>date = Some 1672531200000, revenue = Some (Fin 31), grossProfit = None, netIncome = None,
          calendarYear = JStr ''2023''\<rparr>
   \<and> latestMarketCap
     \<lparr>fd_ticker = Some ''CRM'',
      income_statement = Some
        [\<lparr>date = Some 1640995200000, revenue = Some (Fin 26), grossProfit = None, netIncome = None,
          calendarYear = JStr ''2022''\<rparr>,
         \<lparr>date = Some 1672531200000, revenue = Some (Fin 31), grossProfit = None, netIncome = None,
          calendarYear = JStr ''2023''\<rparr>,
         \<lparr>date = Some 1609459200000, revenue = Some (Fin 21), grossProfit = None, netIncome = None,
          calendarYear = JStr ''2021''\<rparr>],
      market_cap = Some []\<rparr>
   = None"
proof -
  let ?e21 = "\<lparr>date = Some 1609459200000, revenue = Some (Fin 21), grossProfit = None, netIncome = None,
          calendarYear = JStr ''2021''\<rparr>"
  let ?e22 = "\<lparr>date = Some 1640995200000, revenue = Some (Fin 26), grossProfit = None, netIncome = None,
          calendarYear = JStr ''2022''\<rparr>"
  let ?e23 = "\<lparr>date = Some 1672531200000, revenue = Some (Fin 31), grossProfit = None, netIncome = None,
          calendarYear = JStr ''2023''\<rparr>"
  let ?fd = "\<lparr>fd_ticker = Some ''CRM'', income_statement = Some [?e22, ?e23, ?e21], market_cap = Some []\<rparr>"
  note t = latest_entry_has_maximum_date [of ?fd]
  have h: "income_statement ?fd = Some [?e22, ?e23, ?e21] \<and> [?e22, ?e23, ?e21] \<noteq> []
           \<and> (\<forall>x\<in>set [?e22, ?e23, ?e21]. date x \<noteq> None)"
    by simp
  from t h obtain e u where e: "latestIncomeStatement ?fd = Some e"
      "array_find (\<lambda>x. date x = Some u) [?e22, ?e23, ?e21] = Some e"
      "\<forall>x\<in>set [?e22, ?e23, ?e21]. \<exists>s. date x = Some s \<and> s \<le> u" "date e = Some u" "e \<in> set [?e22, ?e23, ?e21]"
    by blast
  from e(3) have "1672531200000 \<le> u" by simp
  with e(4,5) have "e = ?e23" by auto
  moreover from t have "latestMarketCap ?fd = None" by simp
  ultimately show ?thesis using e(1) by simp
qed

text \<open>
  With an entry whose date is absent the latest entry need not have the maximum date: the
  comparator is \<open>NaN\<close> on it, the sort leaves the two entries in their order, and the
  undated entry is returned although the other one is dated.
\<close>

theorem undated_entry_counterexample:
  "latestIncomeStatement
     \<lparr>fd_ticker = Some ''CRM'',
      income_statement = Some
        [\<lparr>date = None, revenue = Some (Fin 1), grossProfit = None, netIncome = None,
          calendarYear = JUndefined\<rparr>,
         \<lparr>date = Some 1672531200000, revenue = Some (Fin 2), grossProfit = None, netIncome = None,
          calendarYear = JStr ''2023''\<rparr>],
      market_cap = None\<rparr>
   = Some \<lparr>date = None, revenue = Some (Fin 1), grossProfit = None, netIncome = None,
          calendarYear = JUndefined\<rparr>"
  by (simp add: latestIncomeStatement_def sort_compare_def date_minus_def)

subsection \<open>Deduplication and the default sort\<close>

lemma insert_sorted_insort: "insert_sorted x ys = insort x ys"
  by (induction ys) auto

lemma sort_strings_sort: "sort_strings xs = sort xs"
  by (induction xs) (auto simp: insert_sorted_insort)

lemma foldl_set_add:
  "distinct acc \<Longrightarrow>
     distinct (foldl set_add acc xs) \<and> set (foldl set_add acc xs) = set acc \<union> set xs
     \<and> length (foldl set_add acc xs) \<le> length acc + length xs"
proof (induction xs arbitrary: acc)
  case Nil
  then show ?case by simp
next
  case (Cons x xs)
  have d: "distinct (set_add acc x)"
    using Cons.prems by (simp add: set_add_def)
  have s: "set (set_add acc x) = insert x (set acc)"
    by (auto simp: set_add_def)
  have l: "length (set_add acc x) \<le> Suc (length acc)"
    by (simp add: set_add_def)
  from Cons.IH[OF d] s l show ?case by auto
qed

lemma new_Set_props:
  "distinct (new_Set xs)" "set (new_Set xs) = set xs" "length (new_Set xs) \<le> length xs"
  using foldl_set_add[of "[]" xs] by (simp_all add: new_Set_def)

lemma listCountries_set:
  "set (listCountries rs) = countryName_of ` set rs - {[]}"
  by (auto simp: listCountries_def sort_strings_sort new_Set_props)

lemma listCountries_sorted_list_of_set:
  "listCountries rs = sorted_list_of_set (countryName_of ` set rs - {[]})"
proof -
  have "sorted (listCountries rs)" "distinct (listCountries rs)"
    by (simp_all add: listCountries_def sort_strings_sort new_Set_props)
  then show ?thesis
    using listCountries_set[of rs]
    by (metis sorted_list_of_set.idem_if_sorted_distinct)
qed

lemma countryName_of_cases:
  "(name r = None \<or> name r = Some [] \<longrightarrow> countryName_of r = ''Unknown'')
   \<and> (\<forall>n. name r = Some n \<and> n \<noteq> [] \<and> hd n \<noteq> CHR ''('' \<longrightarrow>
         countryName_of r = trim (takeWhile (\<lambda>c. c \<noteq> CHR ''('') n))
   \<and> (\<forall>n. name r = Some n \<and> n \<noteq> [] \<and> hd n = CHR ''('' \<longrightarrow> countryName_of r = trim n)"
proof -
  have a: "takeWhile (\<lambda>c. c \<noteq> CHR ''('') n \<noteq> []" if "n \<noteq> []" "hd n \<noteq> CHR ''(''" for n
    using that by (cases n) auto
  have b: "takeWhile (\<lambda>c. c \<noteq> CHR ''('') n = []" if "n \<noteq> []" "hd n = CHR ''(''" for n
    using that by (cases n) auto
  show ?thesis
    by (auto simp: countryName_of_def match_country_def Let_def a b split: option.splits)
qed

lemma countryName_of_spec:
  assumes "\<forall>n. name r = Some n \<longrightarrow> n \<noteq> [] \<and> hd n \<noteq> CHR ''(''"
  shows "countryName_of r = countryName_spec r"
proof (cases "name r")
  case None
  then show ?thesis by (simp add: countryName_of_def countryName_spec_def)
next
  case (Some n)
  with assms have "n \<noteq> []" "hd n \<noteq> CHR ''(''" by auto
  with Some countryName_of_cases[of r] show ?thesis
    by (simp add: countryName_spec_def)
qed

text \<open>
  \<^bold>\<open>C6\<close> (amended). For every region list the country list is sorted ascending, has no
  duplicates and is no longer than the region list: it is the sorted list of the set of
  the non-empty country names of the regions. The country name of a region is \<open>Unknown\<close>
  when its name is absent or empty, the trimmed part of the name before the first \<open>(\<close>
  when the name does not begin with \<open>(\<close>, and the whole trimmed name when it does.
  On region lists where no name is empty or begins with \<open>(\<close>, the list is the one the
  specification describes.
\<close>

theorem listCountries_sorted_distinct:
  "sorted (listCountries rs) \<and> distinct (listCountries rs)
   \<and> length (listCountries rs) \<le> length rs
   \<and> listCountries rs = sorted_list_of_set (countryName_of ` set rs - {[]})
   \<and> (\<forall>r. (name r = None \<or> name r = Some [] \<longrightarrow> countryName_of r = ''Unknown'')
         \<and> (\<forall>n. name r = Some n \<and> n \<noteq> [] \<and> hd n \<noteq> CHR ''('' \<longrightarrow>
               countryName_of r = trim (takeWhile (\<lambda>c. c \<noteq> CHR ''('') n))
         \<and> (\<forall>n. name r = Some n \<and> n \<noteq> [] \<and> hd n = CHR ''('' \<longrightarrow> countryName_of r = trim n))
   \<and> ((\<forall>r\<in>set rs. \<forall>n. name r = Some n \<longrightarrow> n \<noteq> [] \<and> hd n \<noteq> CHR ''('')
        \<longrightarrow> listCountries rs = listCountries_spec rs)"
proof -
  have 1: "sorted (listCountries rs)" "distinct (listCountries rs)"
    by (simp_all add: listCountries_def sort_strings_sort new_Set_props)
  have "length (listCountries rs) = length (new_Set (filter (\<lambda>s. s \<noteq> []) (map countryName_of rs)))"
    by (simp add: listCountries_def sort_strings_sort)
  also have "\<dots> \<le> length (filter (\<lambda>s. s \<noteq> []) (map countryName_of rs))"
    by (rule new_Set_props)
  also have "\<dots> \<le> length rs"
    using length_filter_le[of "\<lambda>s. s \<noteq> []" "map countryName_of rs"] by simp
  finally have 2: "length (listCountries rs) \<le> length rs" .
  have 3: "listCountries rs = listCountries_spec rs"
    if h: "\<forall>r\<in>set rs. \<forall>n. name r = Some n \<longrightarrow> n \<noteq> [] \<and> hd n \<noteq> CHR ''(''"
  proof -
    have "countryName_of ` set rs = countryName_spec ` set rs"
      using h by (intro image_cong refl countryName_of_spec) blast
    then show ?thesis
      by (simp add: listCountries_sorted_list_of_set listCountries_spec_def)
  qed
  from 1 2 3 listCountries_sorted_list_of_set[of rs] countryName_of_cases
  show ?thesis by blast
qed

theorem listCountries_sorted_distinct_witness:
  "listCountries
     [\<lparr>name = Some ''United States (NYSE/NASDAQ)'', exchangeName = None, companies = NotArray JUndefined, categories = Some []\<rparr>,
      \<lparr>name = Some ''India (NSE)'', exchangeName = None, companies = IsArray [], categories = None\<rparr>,
      \<lparr>name = Some ''India (BSE)'', exchangeName = None, companies = IsArray [], categories = None\<rparr>,
      \<lparr>name = None, exchangeName = None, companies = IsArray [], categories = None\<rparr>,
      \<lparr>name = Some ''  (OTC)'', exchangeName = None, companies = IsArray [], categories = None\<rparr>]
   = [''India'', ''United States'', ''Unknown'']
   \<and> listCountries_spec
     [\<lparr>name = Some ''United States (NYSE/NASDAQ)'', exchangeName = None, companies = NotArray JUndefined, categories = Some []\<rparr>,
      \<lparr>name = Some ''India (NSE)'', exchangeName = None, companies = IsArray [], categories = None\<rparr>,
      \<lparr>name = Some ''India (BSE)'', exchangeName = None, companies = IsArray [], categories = None\<rparr>,
      \<lparr>name = None, exchangeName = None, companies = IsArray [], categories = None\<rparr>,
      \<lparr>name = Some ''  (OTC)'', exchangeName = None, companies = IsArray [], categories = None\<rparr>]
   = [''India'', ''United States'', ''Unknown'']"
proof -
  let ?rs = "[\<lparr>name = Some ''United States (NYSE/NASDAQ)'', exchangeName = None, companies = NotArray JUndefined, categories = Some []\<rparr>,
      \<lparr>name = Some ''India (NSE)'', exchangeName = None, companies = IsArray [], categories = None\<rparr>,
      \<lparr>name = Some ''India (BSE)'', exchangeName = None, companies = IsArray [], categories = None\<rparr>,
      \<lparr>name = None, exchangeName = None, companies = IsArray [], categories = None\<rparr>,
      \<lparr>name = Some ''  (OTC)'', exchangeName = None, companies = IsArray [], categories = None\<rparr>]"
  have v: "listCountries ?rs = [''India'', ''United States'', ''Unknown'']"
    by (simp add: listCountries_def countryName_of_def match_country_def trim_def is_space_def
          new_Set_def set_add_def)
  have h: "\<forall>r\<in>set ?rs. \<forall>n. name r = Some n \<longrightarrow> n \<noteq> [] \<and> hd n \<noteq> CHR ''(''"
    by simp
  from listCountries_sorted_distinct[of ?rs] h
  have "listCountries ?rs = listCountries_spec ?rs" by blast
  with v show ?thesis by simp
qed

text \<open>
  The specification's sentence fails for a region whose name begins with \<open>(\<close>: the
  pattern does not match, the whole trimmed name is kept, and the list is not empty.
\<close>

theorem listCountries_paren_counterexample:
  "listCountries
     [\<lparr>name = Some ''(NYSE)'', exchangeName = None, companies = NotArray JUndefined, categories = None\<rparr>]
   = [''(NYSE)'']
   \<and> listCountries_spec
     [\<lparr>name = Some ''(NYSE)'', exchangeName = None, companies = NotArray JUndefined, categories = None\<rparr>]
   = []"
  by (simp add: listCountries_def countryName_of_def match_country_def trim_def is_space_def
        new_Set_def set_add_def listCountries_spec_def countryName_spec_def)

subsection \<open>The fallback of the raw values\<close>

lemma truthy_field_iff:
  "truthy_field x \<longleftrightarrow> (\<exists>n. x = Some n \<and> n \<noteq> Fin 0 \<and> n \<noteq> NegZero \<and> n \<noteq> NaN)"
proof (cases x)
  case None
  then show ?thesis by simp
next
  case (Some n)
  then show ?thesis by (cases n) auto
qed

lemma get_prop_precomputed_fallbacks:
  "get_prop (precomputed_financials numberToString v latest) ''revenue''
     = field_value (or_field (chain (raw_values v) current_revenue) (chain latest revenue))"
  "get_prop (precomputed_financials numberToString v latest) ''grossProfit''
     = field_value (or_field (chain (raw_values v) current_grossProfit) (chain latest grossProfit))"
  "get_prop (precomputed_financials numberToString v latest) ''netIncome''
     = field_value (or_field (chain (raw_values v) current_netIncome) (chain latest netIncome))"
  by (simp_all add: precomputed_financials_def get_prop_def Let_def)

lemma enrich_precomputed:
  assumes "growth_metrics v \<noteq> None \<or> raw_values v \<noteq> None"
  shows "financials_field (enrich numberToString company fd (Some v)) k
           = get_prop (precomputed_financials numberToString v
               (latestIncomeStatement (case fd of Some d \<Rightarrow> d | None \<Rightarrow> empty_financial_data))) k"
  using assms unfolding enrich_def Let_def financials_field_def
  by (auto simp: get_prop_spread_with)

text \<open>
  \<^bold>\<open>C2\<close> (amended). When enrichment uses the pre-calculated metrics, each of
  \<open>financials.revenue\<close>, \<open>grossProfit\<close> and \<open>netIncome\<close> is the raw current value of the
  valuation metrics when that value is truthy (present, not a zero and not \<open>NaN\<close>), and
  otherwise the corresponding field of the latest income statement (\<open>undefined\<close> when
  there is none): the fallback is taken for a raw value that is absent and also for one
  that is a zero or \<open>NaN\<close>.
\<close>

theorem precomputed_values_fall_back_when_falsy:
  assumes "growth_metrics v \<noteq> None \<or> raw_values v \<noteq> None"
  shows "financials_field (enrich numberToString company fd (Some v)) ''revenue''
           = (if truthy_field (chain (raw_values v) current_revenue)
              then field_value (chain (raw_values v) current_revenue)
              else field_value
                     (chain (latestIncomeStatement
                               (case fd of Some d \<Rightarrow> d | None \<Rightarrow> empty_financial_data)) revenue))
       \<and> financials_field (enrich numberToString company fd (Some v)) ''grossProfit''
           = (if truthy_field (chain (raw_values v) current_grossProfit)
              then field_value (chain (raw_values v) current_grossProfit)
              else field_value
                     (chain (latestIncomeStatement
                               (case fd of Some d \<Rightarrow> d | None \<Rightarrow> empty_financial_data)) grossProfit))
       \<and> financials_field (enrich numberToString company fd (Some v)) ''netIncome''
           = (if truthy_field (chain (raw_values v) current_netIncome)
              then field_value (chain (raw_values v) current_netIncome)
              else field_value
                     (chain (latestIncomeStatement
                               (case fd of Some d \<Rightarrow> d | None \<Rightarrow> empty_financial_data)) netIncome))
       \<and> (\<forall>x. truthy_field x \<longleftrightarrow> (\<exists>n. x = Some n \<and> n \<noteq> Fin 0 \<and> n \<noteq> NegZero \<and> n \<noteq> NaN))"
proof -
  let ?latest = "latestIncomeStatement (case fd of Some d \<Rightarrow> d | None \<Rightarrow> empty_financial_data)"
  have f: "field_value (or_field a b) = (if truthy_field a then field_value a else field_value b)"
    for a b by (simp add: or_field_def)
  have 1: "financials_field (enrich numberToString company fd (Some v)) ''revenue''
      = (if truthy_field (chain (raw_values v) current_revenue)
         then field_value (chain (raw_values v) current_revenue)
         else field_value (chain ?latest revenue))"
    unfolding enrich_precomputed[OF assms] get_prop_precomputed_fallbacks f ..
  have 2: "financials_field (enrich numberToString company fd (Some v)) ''grossProfit''
      = (if truthy_field (chain (raw_values v) current_grossProfit)
         then field_value (chain (raw_values v) current_grossProfit)
         else field_value (chain ?latest grossProfit))"
    unfolding enrich_precomputed[OF assms] get_prop_precomputed_fallbacks f ..
  have 3: "financials_field (enrich numberToString company fd (Some v)) ''netIncome''
      = (if truthy_field (chain (raw_values v) current_netIncome)
         then field_value (chain (raw_values v) current_netIncome)
         else field_value (chain ?latest netIncome))"
    unfolding enrich_precomputed[OF assms] get_prop_precomputed_fallbacks f ..
  from 1 2 3 truthy_field_iff show ?thesis by blast
qed

theorem precomputed_values_fall_back_when_falsy_witness:
  "financials_field
     (enrich (\<lambda>_. []) [(''ticker'', JStr ''CRM'')]
        (Some \<lparr>fd_ticker = Some ''CRM'',
               income_statement = Some
                 [\<lparr>date = Some 1672531200000, revenue = Some (Fin 31), grossProfit = Some (Fin 20),
                   netIncome = Some (Fin 2), calendarYear = JStr ''2023''\<rparr>],
               market_cap = None\<rparr>)
        (Some \<lparr>vm_ticker = Some ''CRM'', vm_market_cap = Some (Fin 100), latest_fiscal_year = JStr ''2023'',
               growth_metrics = None,
               raw_values = Some \<lparr>current_revenue = Some (Fin 30), current_grossProfit = None,
                                   current_netIncome = Some (Fin 0)\<rparr>,
               valuation_multiples = JUndefined, valuation_multiples_raw = None\<rparr>))
     ''revenue'' = JNum (Fin 30)
   \<and> financials_field
     (enrich (\<lambda>_. []) [(''ticker'', JStr ''CRM'')]
        (Some \<lparr>fd_ticker = Some ''CRM'',
               income_statement = Some
                 [\<lparr>date = Some 1672531200000, revenue = Some (Fin 31), grossProfit = Some (Fin 20),
                   netIncome = Some (Fin 2), calendarYear = JStr ''2023''\<rparr>],
               market_cap = None\<rparr>)
        (Some \<lparr>vm_ticker = Some ''CRM'', vm_market_cap = Some (Fin 100), latest_fiscal_year = JStr ''2023'',
               growth_metrics = None,
               raw_values = Some \<lparr>current_revenue = Some (Fin 30), current_grossProfit = None,
                                   current_netIncome = Some (Fin 0)\<rparr>,
               valuation_multiples = JUndefined, valuation_multiples_raw = None\<rparr>))
     ''grossProfit'' = JNum (Fin 20)"
proof -
  let ?v = "\<lparr>vm_ticker = Some ''CRM'', vm_market_cap = Some (Fin 100), latest_fiscal_year = JStr ''2023'',
               growth_metrics = None,
               raw_values = Some \<lparr>current_revenue = Some (Fin 30), current_grossProfit = None,
                                   current_netIncome = Some (Fin 0)\<rparr>,
               valuation_multiples = JUndefined, valuation_multiples_raw = None\<rparr>"
  have h: "growth_metrics ?v \<noteq> None \<or> raw_values ?v \<noteq> None" by simp
  note t = precomputed_values_fall_back_when_falsy [OF h, of "\<lambda>_. []" "[(''ticker'', JStr ''CRM'')]"
        "Some \<lparr>fd_ticker = Some ''CRM'',
               income_statement = Some
                 [\<lparr>date = Some 1672531200000, revenue = Some (Fin 31), grossProfit = Some (Fin 20),
                   netIncome = Some (Fin 2), calendarYear = JStr ''2023''\<rparr>],
               market_cap = None\<rparr>"]
  show ?thesis
    using conjunct1 [OF t] conjunct1 [OF conjunct2 [OF t]]
    by (simp add: chain_def latestIncomeStatement_def)
qed

text \<open>
  The fallback is not only for an absent raw value: with \<open>current_revenue = 0\<close> present
  and a latest income statement of revenue 500, \<open>financials.revenue\<close> is 500.
\<close>

theorem raw_value_zero_counterexample:
  "chain (raw_values
        \<lparr>vm_ticker = Some ''CRM'', vm_market_cap = Some (Fin 100), latest_fiscal_year = JStr ''2023'',
         growth_metrics = None,
         raw_values = Some \<lparr>current_revenue = Some (Fin 0), current_grossProfit = None,
                             current_netIncome = None\<rparr>,
         valuation_multiples = JUndefined, valuation_multiples_raw = None\<rparr>) current_revenue
     = Some (Fin 0)
   \<and> financials_field
     (enrich (\<lambda>_. []) [(''ticker'', JStr ''CRM'')]
        (Some \<lparr>fd_ticker = Some ''CRM'',
               income_statement = Some
                 [\<lparr>date = Some 1672531200000, revenue = Some (Fin 500), grossProfit = None,
                   netIncome = None, calendarYear = JStr ''2023''\<rparr>],
               market_cap = None\<rparr>)
        (Some \<lparr>vm_ticker = Some ''CRM'', vm_market_cap = Some (Fin 100), latest_fiscal_year = JStr ''2023'',
               growth_metrics = None,
               raw_values = Some \<lparr>current_revenue = Some (Fin 0), current_grossProfit = None,
                                   current_netIncome = None\<rparr>,
               valuation_multiples = JUndefined, valuation_multiples_raw = None\<rparr>))
     ''revenue'' = JNum (Fin 500)"
  by (simp add: chain_def enrich_def financials_field_def get_prop_def precomputed_financials_def
        latestIncomeStatement_def or_field_def Let_def)

subsection \<open>Rounding to a double\<close>

lemma pow2_powi: "pow2 e = 2 powi e"
  by (simp add: pow2_def power_int_def inverse_eq_divide power_one_over)

lemma pow2_pos: "0 < pow2 e"
  by (simp add: pow2_powi)

lemma pow2_add: "pow2 (a + b) = pow2 a * pow2 b"
  by (simp add: pow2_powi power_int_add)

lemma pow2_mono: "a \<le> b \<Longrightarrow> pow2 a \<le> pow2 b"
  by (simp add: pow2_powi power_int_increasing)

lemma pow2_less_cancel: "pow2 a < pow2 b \<Longrightarrow> a < b"
  using pow2_mono[of b a] by (rule_tac ccontr) simp

lemma pow2_nat: "0 \<le> e \<Longrightarrow> pow2 e = 2 ^ nat e"
  by (simp add: pow2_def)

lemma round_half_even_error: "\<bar>of_int (round_half_even y) - y\<bar> \<le> 1 / 2"
proof -
  define n where "n = \<lfloor>y\<rfloor>"
  define r where "r = y - of_int n"
  have b: "0 \<le> r" "r < 1" unfolding r_def n_def by linarith+
  have y: "y = of_int n + r" unfolding r_def by simp
  consider "r < 1 / 2" | "1 / 2 < r" | "r = 1 / 2" "even n" | "r = 1 / 2" "odd n"
    by fastforce
  then show ?thesis
  proof cases
    case 1
    then have "round_half_even y = n"
      unfolding round_half_even_def Let_def n_def[symmetric] r_def[symmetric] by simp
    with 1 b show ?thesis unfolding y by simp
  next
    case 2
    then have "round_half_even y = n + 1"
      unfolding round_half_even_def Let_def n_def[symmetric] r_def[symmetric] by simp
    with 2 b show ?thesis unfolding y by simp
  next
    case 3
    then have "round_half_even y = n"
      unfolding round_half_even_def Let_def n_def[symmetric] r_def[symmetric] by simp
    with 3 show ?thesis unfolding y by simp
  next
    case 4
    then have "round_half_even y = n + 1"
      unfolding round_half_even_def Let_def n_def[symmetric] r_def[symmetric] by simp
    with 4 show ?thesis unfolding y by simp
  qed
qed

lemma round_half_even_ge:
  assumes "of_int k \<le> y"
  shows "k \<le> round_half_even y"
proof -
  from assms have "k \<le> \<lfloor>y\<rfloor>" by (simp add: le_floor_iff)
  then show ?thesis
    unfolding round_half_even_def Let_def by auto
qed

lemma round_double_not_NaN: "round_double q \<noteq> NaN"
  by (simp add: round_double_def Let_def)

lemma round_double_Fin:
  assumes "round_double q = Fin x" and "q \<noteq> 0"
  shows "\<bar>x\<bar> < 2 ^ 1024 \<and> \<bar>x - q\<bar> \<le> pow2 (ulp_exp q) / 2"
proof -
  define u where "u = pow2 (ulp_exp q)"
  define z where "z = of_int (round_half_even (q / u)) * u"
  have u: "0 < u" unfolding u_def by (rule pow2_pos)
  from assms have x: "x = z" "\<bar>z\<bar> < 2 ^ 1024"
    unfolding round_double_def Let_def u_def[symmetric] z_def[symmetric]
    by (auto split: if_splits)
  have "\<bar>of_int (round_half_even (q / u)) - q / u\<bar> \<le> 1 / 2"
    by (rule round_half_even_error)
  then have "\<bar>of_int (round_half_even (q / u)) - q / u\<bar> * u \<le> (1 / 2) * u"
    using u by (intro mult_right_mono) simp_all
  moreover have "\<bar>of_int (round_half_even (q / u)) - q / u\<bar> * u = \<bar>z - q\<bar>"
  proof -
    have "\<bar>of_int (round_half_even (q / u)) - q / u\<bar> * u
            = \<bar>(of_int (round_half_even (q / u)) - q / u) * u\<bar>"
      using u by (simp add: abs_mult)
    also have "(of_int (round_half_even (q / u)) - q / u) * u = z - q"
      using u unfolding z_def by (simp add: left_diff_distrib)
    finally show ?thesis .
  qed
  ultimately have "\<bar>z - q\<bar> \<le> u / 2" by simp
  with x show ?thesis unfolding u_def by simp
qed

lemma floor_log2_bounds:
  assumes "0 < q"
  shows "pow2 (floor_log2 q) \<le> q \<and> q < pow2 (floor_log2 q + 1)"
proof -
  obtain n d where nd: "quotient_of q = (n, d)" by (cases "quotient_of q")
  then have d: "0 < d" and q: "q = of_int n / of_int d"
    using quotient_of_denom_pos quotient_of_div by blast+
  with assms have n: "0 < n"
    by (simp add: zero_less_divide_iff)
  define bn where "bn = bitlen n"
  define bd where "bd = bitlen d"
  from bitlen_bounds[OF n] have n1: "2 ^ nat (bn - 1) \<le> n" and n2: "n < 2 ^ nat bn"
    unfolding bn_def by simp_all
  from bitlen_bounds[OF d] have d1: "2 ^ nat (bd - 1) \<le> d" and d2: "d < 2 ^ nat bd"
    unfolding bd_def by simp_all
  have bn: "1 \<le> bn" and bd: "1 \<le> bd"
    unfolding bn_def bd_def using n d bitlen_eq_zero_iff[of n] bitlen_eq_zero_iff[of d]
      bitlen_nonneg[of n] bitlen_nonneg[of d] by linarith+
  have rn1: "pow2 (bn - 1) \<le> of_int n"
  proof -
    have "(of_int (2 ^ nat (bn - 1)) :: rat) \<le> of_int n" using n1 by (simp only: of_int_le_iff)
    then show ?thesis using bn by (simp add: pow2_nat)
  qed
  have rn2: "of_int n < pow2 bn"
  proof -
    have "(of_int n :: rat) < of_int (2 ^ nat bn)" using n2 by (simp only: of_int_less_iff)
    then show ?thesis using bn by (simp add: pow2_nat)
  qed
  have rd1: "pow2 (bd - 1) \<le> of_int d"
  proof -
    have "(of_int (2 ^ nat (bd - 1)) :: rat) \<le> of_int d" using d1 by (simp only: of_int_le_iff)
    then show ?thesis using bd by (simp add: pow2_nat)
  qed
  have rd2: "of_int d < pow2 bd"
  proof -
    have "(of_int d :: rat) < of_int (2 ^ nat bd)" using d2 by (simp only: of_int_less_iff)
    then show ?thesis using bd by (simp add: pow2_nat)
  qed
  have dpos: "(0::rat) < of_int d" using d by simp
  have qd: "q * of_int d = of_int n" using q dpos by simp
  have upper: "q < pow2 (bn - bd + 1)"
  proof -
    have "q * of_int d < pow2 bn" using qd rn2 by simp
    also have "pow2 bn = pow2 (bn - bd + 1) * pow2 (bd - 1)"
      using pow2_add[of "bn - bd + 1" "bd - 1"] by simp
    also have "\<dots> \<le> pow2 (bn - bd + 1) * of_int d"
      using rd1 pow2_pos[of "bn - bd + 1"] by (intro mult_left_mono) simp_all
    finally show ?thesis using dpos by simp
  qed
  have lower: "pow2 (bn - bd - 1) \<le> q"
  proof -
    have "pow2 (bn - bd - 1) * of_int d \<le> pow2 (bn - bd - 1) * pow2 bd"
      using rd2 pow2_pos[of "bn - bd - 1"] by (intro mult_left_mono) simp_all
    also have "\<dots> = pow2 (bn - 1)"
      using pow2_add[of "bn - bd - 1" bd] by simp
    also have "\<dots> \<le> q * of_int d" using rn1 qd by simp
    finally show ?thesis using dpos by simp
  qed
  have fl: "floor_log2 q = (if pow2 (bn - bd) \<le> q then bn - bd else bn - bd - 1)"
    unfolding floor_log2_def Let_def nd bn_def bd_def by simp
  show ?thesis
  proof (cases "pow2 (bn - bd) \<le> q")
    case True
    with fl upper show ?thesis by simp
  next
    case False
    with fl lower show ?thesis by simp
  qed
qed

lemma floor_log2_less:
  assumes "0 < q" "q < pow2 e"
  shows "floor_log2 q < e"
proof -
  from floor_log2_bounds[OF assms(1)] assms(2) have "pow2 (floor_log2 q) < pow2 e" by simp
  then show ?thesis by (rule pow2_less_cancel)
qed

lemma floor_log2_ge:
  assumes "0 < q" "pow2 e \<le> q"
  shows "e \<le> floor_log2 q"
proof -
  from floor_log2_bounds[OF assms(1)] assms(2) have "pow2 e < pow2 (floor_log2 q + 1)" by simp
  then have "e < floor_log2 q + 1" by (rule pow2_less_cancel)
  then show ?thesis by simp
qed

lemma ulp_exp_le:
  assumes "q \<noteq> 0" "\<bar>q\<bar> < 2 ^ 1024"
  shows "pow2 (ulp_exp q) \<le> 2 ^ 971"
proof -
  have "\<bar>q\<bar> < pow2 1024" using assms(2) by (simp add: pow2_def)
  with assms(1) have "floor_log2 \<bar>q\<bar> < 1024" by (intro floor_log2_less) simp_all
  then have "ulp_exp q \<le> 971" unfolding ulp_exp_def by simp
  then have "pow2 (ulp_exp q) \<le> pow2 971" by (rule pow2_mono)
  then show ?thesis by (simp add: pow2_def)
qed

lemma round_double_inf_only_on_overflow:
  assumes "is_inf (round_double q)"
  shows "2 ^ 1024 - 2 ^ 970 \<le> \<bar>q\<bar>"
proof (rule ccontr)
  assume c: "\<not> 2 ^ 1024 - 2 ^ 970 \<le> \<bar>q\<bar>"
  from assms have q0: "q \<noteq> 0" by (auto simp: round_double_def)
  define u where "u = pow2 (ulp_exp q)"
  define z where "z = of_int (round_half_even (q / u)) * u"
  have u: "0 < u" unfolding u_def by (rule pow2_pos)
  from assms q0 have big: "2 ^ 1024 \<le> \<bar>z\<bar>"
    unfolding round_double_def Let_def u_def[symmetric] z_def[symmetric]
    by (auto split: if_splits)
  have "\<bar>of_int (round_half_even (q / u)) - q / u\<bar> \<le> 1 / 2"
    by (rule round_half_even_error)
  then have "\<bar>of_int (round_half_even (q / u)) - q / u\<bar> * u \<le> (1 / 2) * u"
    using u by (intro mult_right_mono) simp_all
  moreover have "\<bar>of_int (round_half_even (q / u)) - q / u\<bar> * u = \<bar>z - q\<bar>"
  proof -
    have "\<bar>of_int (round_half_even (q / u)) - q / u\<bar> * u
            = \<bar>(of_int (round_half_even (q / u)) - q / u) * u\<bar>"
      using u by (simp add: abs_mult)
    also have "(of_int (round_half_even (q / u)) - q / u) * u = z - q"
      using u unfolding z_def by (simp add: left_diff_distrib)
    finally show ?thesis .
  qed
  ultimately have e: "\<bar>z - q\<bar> \<le> u / 2" by simp
  have "(2::rat) ^ 1024 - 2 ^ 970 \<le> 2 ^ 1024" by simp
  with c have "\<bar>q\<bar> < 2 ^ 1024" by linarith
  from ulp_exp_le[OF q0 this] have "u \<le> 2 ^ 971" unfolding u_def .
  then have "u / 2 \<le> 2 ^ 970" by simp
  with e have "\<bar>z - q\<bar> \<le> 2 ^ 970" by linarith
  with big have "2 ^ 1024 - 2 ^ 970 \<le> \<bar>q\<bar>" by linarith
  with c show False by simp
qed

lemma round_double_overflow:
  assumes "2 ^ 1024 \<le> q"
  shows "round_double q = PosInf"
proof -
  have p: "(0::rat) < 2 ^ 1024" by simp
  with assms have q0: "0 < q" by linarith
  define e where "e = floor_log2 \<bar>q\<bar>"
  have aq: "\<bar>q\<bar> = q" using q0 by simp
  have "pow2 1024 \<le> q" using assms by (simp add: pow2_def)
  then have e: "1024 \<le> e" unfolding e_def aq using q0 by (intro floor_log2_ge)
  then have ue: "ulp_exp q = e - 52" unfolding ulp_exp_def e_def by simp
  define u where "u = pow2 (e - 52)"
  have u: "0 < u" unfolding u_def by (rule pow2_pos)
  have pe: "pow2 e = of_int (2 ^ 52) * u"
    unfolding u_def using pow2_add[of 52 "e - 52"] by (simp add: pow2_def)
  have "pow2 e \<le> q" using floor_log2_bounds[OF q0] unfolding e_def aq by simp
  then have "of_int (2 ^ 52) * u \<le> q" unfolding pe .
  then have "of_int (2 ^ 52) \<le> q / u" using u by (simp add: pos_le_divide_eq)
  then have "2 ^ 52 \<le> round_half_even (q / u)" by (rule round_half_even_ge)
  then have "(of_int (2 ^ 52) :: rat) \<le> of_int (round_half_even (q / u))"
    by (simp only: of_int_le_iff)
  then have "of_int (2 ^ 52) * u \<le> of_int (round_half_even (q / u)) * u"
    using u by (intro mult_right_mono) simp_all
  then have "pow2 e \<le> of_int (round_half_even (q / u)) * u" unfolding pe .
  moreover have "pow2 1024 \<le> pow2 e" using e by (rule pow2_mono)
  ultimately have "2 ^ 1024 \<le> of_int (round_half_even (q / u)) * u"
    by (simp add: pow2_def)
  then have "2 ^ 1024 \<le> \<bar>of_int (round_half_even (q / u)) * u\<bar>" by linarith
  then show ?thesis
    unfolding round_double_def Let_def ue u_def[symmetric] using q0 by simp
qed

lemma round_double_relative_error:
  assumes "round_double q = Fin x" and "pow2 (- 1022) \<le> \<bar>q\<bar>"
  shows "\<bar>x - q\<bar> \<le> \<bar>q\<bar> * pow2 (- 53)"
proof -
  have q0: "q \<noteq> 0" using assms(2) pow2_pos[of "- 1022"] by auto
  then have aq: "0 < \<bar>q\<bar>" by simp
  from floor_log2_ge[OF aq assms(2)] have "ulp_exp q = floor_log2 \<bar>q\<bar> - 52"
    unfolding ulp_exp_def by simp
  then have "pow2 (ulp_exp q) / 2 = pow2 (floor_log2 \<bar>q\<bar>) * pow2 (- 53)"
    using pow2_add[of "floor_log2 \<bar>q\<bar>" "- 53"] pow2_add[of "floor_log2 \<bar>q\<bar> - 53" 1]
    by (simp add: pow2_def[of 1])
  also have "\<dots> \<le> \<bar>q\<bar> * pow2 (- 53)"
    using floor_log2_bounds[OF aq] pow2_pos[of "- 53"] by (intro mult_right_mono) simp_all
  finally show ?thesis
    using round_double_Fin[OF assms(1) q0] by linarith
qed

subsection \<open>The calculated multiples\<close>

lemma js_div_finite_by_truthy:
  assumes "x \<noteq> NaN" "\<not> is_inf x" "truthy_num n"
  shows "js_div x n \<noteq> NaN"
proof -
  from assms(3) have n: "n \<noteq> NaN" "\<not> is_zero n" by (cases n; simp)+
  show ?thesis
    using assms(1,2) n by (simp add: js_div_def round_double_not_NaN)
qed

lemma js_div_rounded_quotient:
  assumes "a \<noteq> 0" "b \<noteq> 0"
  shows "js_div (Fin a) (Fin b) = round_double (a / b)"
  using assms by (simp add: js_div_def)

lemma round_scaled_error:
  assumes "0 \<le> x"
  shows "\<bar>of_nat (round_scaled f x) / 10 ^ f - x\<bar> \<le> 1 / (2 * 10 ^ f)"
proof -
  define y where "y = x * 10 ^ f + 1 / 2"
  have y0: "0 \<le> y" using assms unfolding y_def by simp
  then have "0 \<le> \<lfloor>y\<rfloor>" by simp
  then have n: "(of_nat (round_scaled f x) :: rat) = of_int \<lfloor>y\<rfloor>"
    unfolding round_scaled_def y_def by simp
  have lo: "y - 1 < of_int \<lfloor>y\<rfloor>" and hi: "of_int \<lfloor>y\<rfloor> \<le> y"
    by linarith+
  have p: "(0::rat) < 10 ^ f" by simp
  have "\<bar>of_int \<lfloor>y\<rfloor> - x * 10 ^ f\<bar> \<le> 1 / 2"
    using lo hi unfolding y_def by linarith
  then have "\<bar>of_int \<lfloor>y\<rfloor> - x * 10 ^ f\<bar> / 10 ^ f \<le> (1 / 2) / 10 ^ f"
    using p by (intro divide_right_mono) simp_all
  moreover have "\<bar>of_int \<lfloor>y\<rfloor> - x * 10 ^ f\<bar> / 10 ^ f = \<bar>of_int \<lfloor>y\<rfloor> / 10 ^ f - x\<bar>"
  proof -
    have "\<bar>of_int \<lfloor>y\<rfloor> - x * 10 ^ f\<bar> / 10 ^ f = \<bar>(of_int \<lfloor>y\<rfloor> - x * 10 ^ f) / 10 ^ f\<bar>"
      using p by simp
    also have "(of_int \<lfloor>y\<rfloor> - x * 10 ^ f) / 10 ^ f = of_int \<lfloor>y\<rfloor> / 10 ^ f - x"
      using p by (simp add: diff_divide_distrib)
    finally show ?thesis .
  qed
  ultimately show ?thesis unfolding n by simp
qed

lemma fixed_digits_has_point: "f \<noteq> 0 \<Longrightarrow> CHR ''.'' \<in> set (fixed_digits f x)"
  by (simp add: fixed_digits_def Let_def)

lemma toFixed_below_limit:
  assumes "\<bar>q\<bar> < 10 ^ 21"
  shows "toFixed numberToString 2 (Fin q) = (if q < 0 then ''-'' else []) @ fixed_digits 2 \<bar>q\<bar>"
    and "toFixed numberToString 2 (Fin q) \<notin> {''NaN'', ''Infinity'', ''-Infinity''}"
proof -
  show e: "toFixed numberToString 2 (Fin q) = (if q < 0 then ''-'' else []) @ fixed_digits 2 \<bar>q\<bar>"
    using assms by simp
  have "CHR ''.'' \<in> set (toFixed numberToString 2 (Fin q))"
    unfolding e using fixed_digits_has_point[of 2 "\<bar>q\<bar>"] by simp
  moreover have "CHR ''.'' \<notin> set ''NaN''" "CHR ''.'' \<notin> set ''Infinity''" "CHR ''.'' \<notin> set ''-Infinity''"
    by simp_all
  ultimately show "toFixed numberToString 2 (Fin q) \<notin> {''NaN'', ''Infinity'', ''-Infinity''}"
    by (metis insertE empty_iff)
qed

lemma truthy_num_iff: "truthy_num n \<longleftrightarrow> n \<noteq> Fin 0 \<and> n \<noteq> NegZero \<and> n \<noteq> NaN"
  by (cases n) auto

lemma multiple_falsy: "\<not> truthy_field den \<Longrightarrow> multiple numberToString mc den = JNull"
  by (simp add: multiple_def)

lemma multiple_truthy:
  "truthy_num n \<Longrightarrow>
     multiple numberToString mc (Some n) = JStr (toFixed numberToString 2 (js_div (to_number mc) n))"
  by (simp add: multiple_def)

lemma get_prop_derived_multiples:
  "get_prop (derived_financials numberToString e m) ''marketCapToNetIncomeMultiple''
     = multiple numberToString (marketCap m) (netIncome e)"
  "get_prop (derived_financials numberToString e m) ''marketCapToGrossProfitMultiple''
     = multiple numberToString (marketCap m) (grossProfit e)"
  "get_prop (derived_financials numberToString e m) ''marketCapToRevenueMultiple''
     = multiple numberToString (marketCap m) (revenue e)"
  by (simp_all add: derived_financials_def get_prop_def)

lemma enrich_derived:
  assumes "\<forall>v. vm = Some v \<longrightarrow> growth_metrics v = None \<and> raw_values v = None"
    and "latestIncomeStatement d = Some e" and "latestMarketCap d = Some m"
  shows "enrich numberToString company (Some d) vm
           = spread_with company ''financials'' (JObj (derived_financials numberToString e m))"
proof -
  have v: "growth_metrics (case vm of Some v \<Rightarrow> v | None \<Rightarrow> empty_valuation_metrics) = None"
          "raw_values (case vm of Some v \<Rightarrow> v | None \<Rightarrow> empty_valuation_metrics) = None"
    using assms(1) by (auto simp: empty_valuation_metrics_def split: option.splits)
  show ?thesis
    unfolding enrich_def Let_def using v assms(2,3) by simp
qed

text \<open>
  \<^bold>\<open>C3\<close> (amended). When enrichment calculates from the latest entries, and the
  \<open>marketCap\<close> of the latest market cap entry is a finite number, each of the three
  multiples is \<open>null\<close> when its denominator is absent, a zero or \<open>NaN\<close>. Otherwise it is the
  string \<open>toFixed(2)\<close> of the double quotient of \<open>marketCap\<close> by the denominator, which is
  never \<open>NaN\<close>. For a \<open>marketCap\<close> other than zero and a finite denominator this quotient
  is the exact quotient rounded to a double: it is infinite only if the exact quotient is
  at least \<open>2\<^sup>1\<^sup>0\<^sup>2\<^sup>4 - 2\<^sup>9\<^sup>7\<^sup>0\<close> in absolute value, and in the normal range it is within
  a relative error of \<open>2\<^sup>-\<^sup>5\<^sup>3\<close> of it. When the double quotient is finite and below
  \<open>10\<^sup>2\<^sup>1\<close> in absolute value, the string is its sign and the digits of its absolute
  value rounded to two decimals (at most \<open>0.005\<close> from it), and is none of \<open>NaN\<close>,
  \<open>Infinity\<close>, \<open>-Infinity\<close>. No step of the calculation can throw.
\<close>

theorem derived_multiple_null_or_rounded_quotient:
  assumes "\<forall>v. vm = Some v \<longrightarrow> growth_metrics v = None \<and> raw_values v = None"
    and "latestIncomeStatement d = Some e" and "latestMarketCap d = Some m"
    and "marketCap m = Some mc" and "mc \<noteq> NaN" and "\<not> is_inf mc"
    and "(k, den) \<in> {(''marketCapToNetIncomeMultiple'', netIncome e),
                      (''marketCapToGrossProfitMultiple'', grossProfit e),
                      (''marketCapToRevenueMultiple'', revenue e)}"
  shows "(den = None \<or> den = Some (Fin 0) \<or> den = Some NegZero \<or> den = Some NaN \<longrightarrow>
            financials_field (enrich numberToString company (Some d) vm) k = JNull)
       \<and> (\<forall>n. den = Some n \<and> n \<noteq> Fin 0 \<and> n \<noteq> NegZero \<and> n \<noteq> NaN \<longrightarrow>
            financials_field (enrich numberToString company (Some d) vm) k
              = JStr (toFixed numberToString 2 (js_div mc n))
            \<and> js_div mc n \<noteq> NaN
            \<and> (\<forall>a b. mc = Fin a \<and> a \<noteq> 0 \<and> n = Fin b \<longrightarrow>
                  js_div mc n = round_double (a / b)
                  \<and> (\<bar>a / b\<bar> < 2 ^ 1024 - 2 ^ 970 \<longrightarrow> \<not> is_inf (js_div mc n))
                  \<and> (\<forall>x. js_div mc n = Fin x \<and> pow2 (- 1022) \<le> \<bar>a / b\<bar> \<longrightarrow>
                        \<bar>x - a / b\<bar> \<le> \<bar>a / b\<bar> * pow2 (- 53)))
            \<and> (\<forall>x. js_div mc n = Fin x \<and> \<bar>x\<bar> < 10 ^ 21 \<longrightarrow>
                  toFixed numberToString 2 (Fin x)
                    = (if x < 0 then ''-'' else []) @ fixed_digits 2 \<bar>x\<bar>
                  \<and> toFixed numberToString 2 (Fin x) \<notin> {''NaN'', ''Infinity'', ''-Infinity''}
                  \<and> \<bar>of_nat (round_scaled 2 \<bar>x\<bar>) / 10 ^ 2 - \<bar>x\<bar>\<bar> \<le> 1 / (2 * 10 ^ 2)))"
proof -
  have f: "financials_field (enrich numberToString company (Some d) vm) k
             = multiple numberToString (Some mc) den"
    using assms(7)
    unfolding enrich_derived[OF assms(1-3)] financials_field_def get_prop_spread_with
    by (auto simp: get_prop_derived_multiples assms(4))
  have 1: "financials_field (enrich numberToString company (Some d) vm) k = JNull"
    if "den = None \<or> den = Some (Fin 0) \<or> den = Some NegZero \<or> den = Some NaN"
    unfolding f using that by (auto simp: multiple_def)
  have 2: "financials_field (enrich numberToString company (Some d) vm) k
              = JStr (toFixed numberToString 2 (js_div mc n))
            \<and> js_div mc n \<noteq> NaN
            \<and> (\<forall>a b. mc = Fin a \<and> a \<noteq> 0 \<and> n = Fin b \<longrightarrow>
                  js_div mc n = round_double (a / b)
                  \<and> (\<bar>a / b\<bar> < 2 ^ 1024 - 2 ^ 970 \<longrightarrow> \<not> is_inf (js_div mc n))
                  \<and> (\<forall>x. js_div mc n = Fin x \<and> pow2 (- 1022) \<le> \<bar>a / b\<bar> \<longrightarrow>
                        \<bar>x - a / b\<bar> \<le> \<bar>a / b\<bar> * pow2 (- 53)))
            \<and> (\<forall>x. js_div mc n = Fin x \<and> \<bar>x\<bar> < 10 ^ 21 \<longrightarrow>
                  toFixed numberToString 2 (Fin x)
                    = (if x < 0 then ''-'' else []) @ fixed_digits 2 \<bar>x\<bar>
                  \<and> toFixed numberToString 2 (Fin x) \<notin> {''NaN'', ''Infinity'', ''-Infinity''}
                  \<and> \<bar>of_nat (round_scaled 2 \<bar>x\<bar>) / 10 ^ 2 - \<bar>x\<bar>\<bar> \<le> 1 / (2 * 10 ^ 2))"
    if n: "den = Some n \<and> n \<noteq> Fin 0 \<and> n \<noteq> NegZero \<and> n \<noteq> NaN" for n
  proof -
    from n have t: "truthy_num n" by (simp add: truthy_num_iff)
    have s: "financials_field (enrich numberToString company (Some d) vm) k
               = JStr (toFixed numberToString 2 (js_div mc n))"
      unfolding f using n multiple_truthy[OF t, of numberToString "Some mc"] by simp
    have nn: "js_div mc n \<noteq> NaN"
      using assms(5,6) t by (rule js_div_finite_by_truthy)
    have q: "js_div mc n = round_double (a / b)
                  \<and> (\<bar>a / b\<bar> < 2 ^ 1024 - 2 ^ 970 \<longrightarrow> \<not> is_inf (js_div mc n))
                  \<and> (\<forall>x. js_div mc n = Fin x \<and> pow2 (- 1022) \<le> \<bar>a / b\<bar> \<longrightarrow>
                        \<bar>x - a / b\<bar> \<le> \<bar>a / b\<bar> * pow2 (- 53))"
      if ab: "mc = Fin a \<and> a \<noteq> 0 \<and> n = Fin b" for a b
    proof -
      from ab n have b: "b \<noteq> 0" by auto
      from ab b have r: "js_div mc n = round_double (a / b)"
        by (simp add: js_div_rounded_quotient)
      have i: "\<not> is_inf (js_div mc n)" if "\<bar>a / b\<bar> < 2 ^ 1024 - 2 ^ 970"
        using that round_double_inf_only_on_overflow[of "a / b"] unfolding r by linarith
      have e: "\<bar>x - a / b\<bar> \<le> \<bar>a / b\<bar> * pow2 (- 53)"
        if "js_div mc n = Fin x \<and> pow2 (- 1022) \<le> \<bar>a / b\<bar>" for x
        using that round_double_relative_error[of "a / b" x] unfolding r by blast
      from r i e show ?thesis by blast
    qed
    have d: "toFixed numberToString 2 (Fin x)
                    = (if x < 0 then ''-'' else []) @ fixed_digits 2 \<bar>x\<bar>
                  \<and> toFixed numberToString 2 (Fin x) \<notin> {''NaN'', ''Infinity'', ''-Infinity''}
                  \<and> \<bar>of_nat (round_scaled 2 \<bar>x\<bar>) / 10 ^ 2 - \<bar>x\<bar>\<bar> \<le> 1 / (2 * 10 ^ 2)"
      if "js_div mc n = Fin x \<and> \<bar>x\<bar> < 10 ^ 21" for x
    proof -
      have "\<bar>of_nat (round_scaled 2 \<bar>x\<bar>) / 10 ^ 2 - \<bar>x\<bar>\<bar> \<le> 1 / (2 * 10 ^ 2)"
        by (rule round_scaled_error) simp
      with that toFixed_below_limit[of x numberToString] show ?thesis by blast
    qed
    from s nn q d show ?thesis by blast
  qed
  from 1 2 show ?thesis by blast
qed

theorem derived_multiple_null_or_rounded_quotient_witness:
  "financials_field
     (enrich (\<lambda>_. []) [(''ticker'', JStr ''ZM'')]
        (Some \<lparr>fd_ticker = Some ''ZM'',
               income_statement = Some
                 [\<lparr>date = Some 1640995200000, revenue = Some (Fin 3), grossProfit = Some (Fin 2),
                   netIncome = Some (Fin 1), calendarYear = JStr ''2022''\<rparr>,
                  \<lparr>date = Some 1672531200000, revenue = Some (Fin 200), grossProfit = None,
                   netIncome = Some (Fin 0), calendarYear = JStr ''2023''\<rparr>],
               market_cap = Some [\<lparr>mc_date = Some 1672531200000, marketCap = Some (Fin 201)\<rparr>]\<rparr>)
        None)
     ''marketCapToNetIncomeMultiple'' = JNull
   \<and> financials_field
     (enrich (\<lambda>_. []) [(''ticker'', JStr ''ZM'')]
        (Some \<lparr>fd_ticker = Some ''ZM'',
               income_statement = Some
                 [\<lparr>date = Some 1640995200000, revenue = Some (Fin 3), grossProfit = Some (Fin 2),
                   netIncome = Some (Fin 1), calendarYear = JStr ''2022''\<rparr>,
                  \<lparr>date = Some 1672531200000, revenue = Some (Fin 200), grossProfit = None,
                   netIncome = Some (Fin 0), calendarYear = JStr ''2023''\<rparr>],
               market_cap = Some [\<lparr>mc_date = Some 1672531200000, marketCap = Some (Fin 201)\<rparr>]\<rparr>)
        None)
     ''marketCapToRevenueMultiple'' = JStr ''1.00''"
proof -
  let ?e = "\<lparr>date = Some 1672531200000, revenue = Some (Fin 200), grossProfit = None,
             netIncome = Some (Fin 0), calendarYear = JStr ''2023''\<rparr>"
  let ?m = "\<lparr>mc_date = Some 1672531200000, marketCap = Some (Fin 201)\<rparr>"
  let ?d = "\<lparr>fd_ticker = Some ''ZM'',
               income_statement = Some
                 [\<lparr>date = Some 1640995200000, revenue = Some (Fin 3), grossProfit = Some (Fin 2),
                   netIncome = Some (Fin 1), calendarYear = JStr ''2022''\<rparr>, ?e],
               market_cap = Some [?m]\<rparr>"
  have h1: "\<forall>v. (None :: valuation_metrics option) = Some v \<longrightarrow> growth_metrics v = None \<and> raw_values v = None"
    by simp
  have h2: "latestIncomeStatement ?d = Some ?e"
    by (simp add: latestIncomeStatement_def sort_compare_def date_minus_def)
  have h3: "latestMarketCap ?d = Some ?m"
    by (simp add: latestMarketCap_def)
  have h4: "marketCap ?m = Some (Fin 201)"
    by simp
  have h5: "Fin 201 \<noteq> NaN" and h6: "\<not> is_inf (Fin 201)"
    by simp_all
  have k1: "(''marketCapToNetIncomeMultiple'', Some (Fin 0))
      \<in> {(''marketCapToNetIncomeMultiple'', netIncome ?e),
          (''marketCapToGrossProfitMultiple'', grossProfit ?e),
          (''marketCapToRevenueMultiple'', revenue ?e)}"
    by simp
  have k2: "(''marketCapToRevenueMultiple'', Some (Fin 200))
      \<in> {(''marketCapToNetIncomeMultiple'', netIncome ?e),
          (''marketCapToGrossProfitMultiple'', grossProfit ?e),
          (''marketCapToRevenueMultiple'', revenue ?e)}"
    by simp
  note t1 = derived_multiple_null_or_rounded_quotient
              [OF h1 h2 h3 h4 h5 h6 k1, of "\<lambda>_. []" "[(''ticker'', JStr ''ZM'')]"]
  note t2 = derived_multiple_null_or_rounded_quotient
              [OF h1 h2 h3 h4 h5 h6 k2, of "\<lambda>_. []" "[(''ticker'', JStr ''ZM'')]"]
  have a: "financials_field (enrich (\<lambda>_. []) [(''ticker'', JStr ''ZM'')] (Some ?d) None)
             ''marketCapToNetIncomeMultiple'' = JNull"
    using conjunct1 [OF t1] by simp
  have s: "financials_field (enrich (\<lambda>_. []) [(''ticker'', JStr ''ZM'')] (Some ?d) None)
             ''marketCapToRevenueMultiple'' = JStr (toFixed (\<lambda>_. []) 2 (js_div (Fin 201) (Fin 200)))"
    using conjunct2 [OF t2] by simp
  have v: "toFixed (\<lambda>_. []) 2 (js_div (Fin 201) (Fin 200)) = ''1.00''"
    by code_simp
  have b: "financials_field (enrich (\<lambda>_. []) [(''ticker'', JStr ''ZM'')] (Some ?d) None)
             ''marketCapToRevenueMultiple'' = JStr ''1.00''"
    unfolding s v ..
  from a b show ?thesis by simp
qed

text \<open>
  The calculation can yield \<open>NaN\<close> and \<open>Infinity\<close>: only the denominator is tested. For a
  latest market cap entry without \<open>marketCap\<close> and a net income of 5, the multiple is the
  string \<open>NaN\<close>; for a market cap of \<open>2\<^sup>1\<^sup>0\<^sup>2\<^sup>3\<close> and a net income of one half the
  quotient overflows and the multiple is the string \<open>Infinity\<close>.
\<close>

theorem absent_marketCap_counterexample:
  "latestMarketCap
     \<lparr>fd_ticker = Some ''ZM'',
      income_statement = Some
        [\<lparr>date = Some 1672531200000, revenue = Some (Fin 4), grossProfit = None,
          netIncome = Some (Fin 5), calendarYear = JStr ''2023''\<rparr>],
      market_cap = Some [\<lparr>mc_date = Some 1672531200000, marketCap = None\<rparr>]\<rparr>
     = Some \<lparr>mc_date = Some 1672531200000, marketCap = None\<rparr>
   \<and> financials_field
     (enrich (\<lambda>_. []) [(''ticker'', JStr ''ZM'')]
        (Some \<lparr>fd_ticker = Some ''ZM'',
               income_statement = Some
                 [\<lparr>date = Some 1672531200000, revenue = Some (Fin 4), grossProfit = None,
                   netIncome = Some (Fin 5), calendarYear = JStr ''2023''\<rparr>],
               market_cap = Some [\<lparr>mc_date = Some 1672531200000, marketCap = None\<rparr>]\<rparr>)
        None)
     ''marketCapToNetIncomeMultiple'' = JStr ''NaN''
   \<and> financials_field
     (enrich (\<lambda>_. []) [(''ticker'', JStr ''ZM'')]
        (Some \<lparr>fd_ticker = Some ''ZM'',
               income_statement = Some
                 [\<lparr>date = Some 1672531200000, revenue = Some (Fin 4), grossProfit = None,
                   netIncome = Some (Fin (1 / 2)), calendarYear = JStr ''2023''\<rparr>],
               market_cap = Some [\<lparr>mc_date = Some 1672531200000, marketCap = Some (Fin (2 ^ 1023))\<rparr>]\<rparr>)
        None)
     ''marketCapToNetIncomeMultiple'' = JStr ''Infinity''"
proof -
  have "(2::rat) ^ 1024 \<le> 2 ^ 1023 / (1 / 2)" by simp
  then have "round_double (2 ^ 1023 / (1 / 2)) = PosInf" by (rule round_double_overflow)
  note i = this [simplified]
  show ?thesis
    by (simp add: enrich_def financials_field_def get_prop_def derived_financials_def
        latestIncomeStatement_def latestMarketCap_def multiple_def empty_valuation_metrics_def
        Let_def js_div_def i)
qed

subsection \<open>Two paths of the handlers on concrete inputs\<close>

lemma category_with_non_array_companies_answers_500:
  "companies_handler (\<lambda>_. [])
     \<lparr>connected = True,
      saascompnies = Some \<lparr>regions = Some
        [\<lparr>name = Some ''United States (NYSE/NASDAQ)'', exchangeName = None,
          companies = NotArray JUndefined,
          categories = Some [\<lparr>cat_name = Some ''CRM'', cat_companies = NotArray (JStr ''none'')\<rparr>]\<rparr>]\<rparr>,
      incomeusa = [], valuation_metrics_coll = [],
      notification_subscriptions = [], metrics_update_subscriptions = []\<rparr>
     ''United States'' (Some ''CRM'')
   = JsonMessage 500 ''Server error''"
  by (simp add: companies_handler_def findRegion_def region_matches_def startsWith_def
        selectCompanies_def enrich_selected_def)

lemma subscribe_stores_lowercase_email:
  "subscribe_handler
     \<lparr>connected = True, saascompnies = None, incomeusa = [], valuation_metrics_coll = [],
      notification_subscriptions = [\<lparr>email = ''a@b.co'', phone = None\<rparr>],
      metrics_update_subscriptions = []\<rparr>
     \<lparr>req_email = Some ''A@B.co'', req_phone = Some '' 555 '',
      notifyAllCountries = True, notifyMetricsUpdates = True\<rparr>
   = (Json 201 (Updated, Created),
      \<lparr>connected = True, saascompnies = None, incomeusa = [], valuation_metrics_coll = [],
       notification_subscriptions = [\<lparr>email = ''a@b.co'', phone = Some ''555''\<rparr>],
       metrics_update_subscriptions = [\<lparr>email = ''a@b.co'', phone = Some ''555''\<rparr>]\<rparr>)"
  by code_simp

end
